theory Spec2Isabelle
  imports Main
begin

section \<open>JavaScript strings and truthiness\<close>

text \<open>
  Strings are lists of code units (only units below 256 are representable here).
  \<open>js_split c s\<close> is \<^verbatim>\<open>s.split(c)\<close> for a one-character separator: the empty
  string splits into one empty piece, and every separator starts a new piece.
\<close>

fun js_split :: "char \<Rightarrow> string \<Rightarrow> string list" where
  "js_split c [] = [[]]"
| "js_split c (x # xs) =
     (if x = c then [] # js_split c xs
      else (case js_split c xs of
              [] \<Rightarrow> [[x]]
            | p # ps \<Rightarrow> (x # p) # ps))"

text \<open>White space and line terminators that \<^verbatim>\<open>String.prototype.trim\<close> removes
  (tab, LF, VT, FF, CR, space, no-break space), by code unit.\<close>

definition is_js_space :: "char \<Rightarrow> bool" where
  "is_js_space c = (of_char c \<in> {9, 10, 11, 12, 13, 32, 160 :: nat})"

definition js_trim :: "string \<Rightarrow> string" where
  "js_trim s = rev (dropWhile is_js_space (rev (dropWhile is_js_space s)))"

text \<open>\<open>str_includes t s\<close> is \<^verbatim>\<open>s.includes(t)\<close>: \<open>t\<close> occurs in \<open>s\<close> as a
  contiguous substring.\<close>

fun starts_with :: "string \<Rightarrow> string \<Rightarrow> bool" where
  "starts_with [] s = True"
| "starts_with (a # t) [] = False"
| "starts_with (a # t) (b # s) = (a = b \<and> starts_with t s)"

fun str_includes :: "string \<Rightarrow> string \<Rightarrow> bool" where
  "str_includes t [] = (t = [])"
| "str_includes t (b # s) = (starts_with t (b # s) \<or> str_includes t s)"

text \<open>Truthiness of a nullable string and of a nullable number (\<open>None\<close> is
  \<^verbatim>\<open>null\<close>/\<^verbatim>\<open>undefined\<close>; the empty string and 0 are falsy).\<close>

definition truthy_str :: "string option \<Rightarrow> bool" where
  "truthy_str v = (case v of None \<Rightarrow> False | Some s \<Rightarrow> s \<noteq> [])"

definition truthy_num :: "int option \<Rightarrow> bool" where
  "truthy_num v = (case v of None \<Rightarrow> False | Some n \<Rightarrow> n \<noteq> 0)"

text \<open>\<^verbatim>\<open>v || ''\<close> on a nullable string.\<close>

definition or_empty :: "string option \<Rightarrow> string" where
  "or_empty v = (case v of None \<Rightarrow> [] | Some s \<Rightarrow> s)"


section \<open>Stored records\<close>

text \<open>A row of \<^verbatim>\<open>social_accounts\<close>, with the columns the routes read or write. Of the
  time stamp \<^verbatim>\<open>proxy_last_used\<close> only the fact that it was written is kept.\<close>

datatype account_status = AccActive | AccInactive | AccPending | AccSessionExpired | AccFailed

record account =
  acc_id :: string
  acc_user_id :: string
  acc_platform :: string
  acc_email :: string
  acc_username :: string
  acc_password :: "string option"
  acc_type :: string
  acc_cookies :: "string option"
  acc_status :: account_status
  proxy_ip :: "string option"
  proxy_port :: "int option"
  proxy_username :: "string option"
  proxy_password :: "string option"
  acc_mail_password :: "string option"
  acc_mfa_code :: "string option"
  proxy_last_used :: bool

datatype task_status = Active | Completed | Failed | Paused | Pending

record task =
  task_id :: nat
  task_user_id :: string
  social_account_id :: string
  task_type :: string
  action_data :: "(string \<times> string option) list"
  schedule_type :: string
  status :: task_status

datatype log_result = LogSuccess | LogFailed

record task_log =
  log_task_id :: nat
  log_result :: log_result
  log_message :: string


section \<open>The proxy descriptor built by the routes\<close>

text \<open>
  The object literal the routes pass to the session manager, as the list of its keys and
  values in the order written. A value is a string, a number, or the string
  \<^verbatim>\<open>n.toString()\<close> of a number \<open>n\<close>, which is kept as the number it renders: nothing
  in these files reads its digits.
\<close>

datatype js_value = JsString string | JsNumber int | JsNumberToString int

type_synonym js_object = "(string \<times> js_value) list"

text \<open>
  \<^verbatim>\<open>account.proxy_ip && account.proxy_port ? {type: 'http', server: account.proxy_ip,
  port: account.proxy_port, username: account.proxy_username || '',
  password: account.proxy_password || ''} : undefined\<close>
  (twitter follow, like, comment and post routes).
\<close>

definition proxyConfig :: "account \<Rightarrow> js_object option" where
  "proxyConfig a =
     (if truthy_str (proxy_ip a) \<and> truthy_num (proxy_port a) then
        Some [(''type'', JsString ''http''),
              (''server'', JsString (the (proxy_ip a))),
              (''port'', JsNumber (the (proxy_port a))),
              (''username'', JsString (or_empty (proxy_username a))),
              (''password'', JsString (or_empty (proxy_password a)))]
      else None)"

text \<open>The same expression in the create-post route, where the port is
  \<^verbatim>\<open>account.proxy_port.toString()\<close>.\<close>

definition proxyConfig_post :: "account \<Rightarrow> js_object option" where
  "proxyConfig_post a =
     (if truthy_str (proxy_ip a) \<and> truthy_num (proxy_port a) then
        Some [(''type'', JsString ''http''),
              (''server'', JsString (the (proxy_ip a))),
              (''port'', JsNumberToString (the (proxy_port a))),
              (''username'', JsString (or_empty (proxy_username a))),
              (''password'', JsString (or_empty (proxy_password a)))]
      else None)"


section \<open>Cookie parsing (playwright-config)\<close>

record cookie =
  ck_name :: string
  ck_value :: "string option"
  ck_domain :: string
  ck_path :: string
  ck_secure :: bool
  ck_httpOnly :: bool
  ck_sameSite :: string

text \<open>
  What \<^verbatim>\<open>JSON.parse\<close> can give back, as far as \<^verbatim>\<open>context.addCookies\<close> cares:
  an array of cookie objects, or some other JSON value. \<^verbatim>\<open>JSON.parse\<close> itself belongs
  to the runtime and is a parameter: \<open>None\<close> is its \<^verbatim>\<open>SyntaxError\<close>.
\<close>

datatype json_value = JCookies "cookie list" | JOther

type_synonym json_parser = "string \<Rightarrow> json_value option"

text \<open>
  The parser the example runs are given for that parameter follows the JSON grammar of
  the language standard: white space is tab, LF, CR and space; a number is an optional
  minus sign, an integer part without a superfluous leading zero, an optional fraction
  and an optional exponent; a string is quoted, holds no control character, and escapes
  with a backslash (a \<^verbatim>\<open>\u\<close> escape takes four hexadecimal digits, of which the low byte
  is kept); nothing but white space may follow the value.
\<close>

datatype json =
    JNull
  | JBool bool
  | JNumber
  | JString string
  | JArray "json list"
  | JObject "(string \<times> json) list"

definition is_json_space :: "char \<Rightarrow> bool" where
  "is_json_space c = (of_char c \<in> {9, 10, 13, 32 :: nat})"

definition skip_ws :: "string \<Rightarrow> string" where
  "skip_ws s = dropWhile is_json_space s"

definition is_digit :: "char \<Rightarrow> bool" where
  "is_digit c = (48 \<le> (of_char c :: nat) \<and> (of_char c :: nat) \<le> 57)"

definition hex_digit :: "char \<Rightarrow> nat option" where
  "hex_digit c =
     (let n = (of_char c :: nat) in
      if 48 \<le> n \<and> n \<le> 57 then Some (n - 48)
      else if 65 \<le> n \<and> n \<le> 70 then Some (n - 55)
      else if 97 \<le> n \<and> n \<le> 102 then Some (n - 87)
      else None)"

text \<open>The character an escape letter stands for.\<close>

definition json_escape :: "char \<Rightarrow> char option" where
  "json_escape e =
     (if e = CHR 0x22 \<or> e = CHR 0x5C \<or> e = CHR ''/'' then Some e
      else if e = CHR ''b'' then Some (CHR 0x08)
      else if e = CHR ''f'' then Some (CHR 0x0C)
      else if e = CHR ''n'' then Some (CHR 0x0A)
      else if e = CHR ''r'' then Some (CHR 0x0D)
      else if e = CHR ''t'' then Some (CHR 0x09)
      else None)"

text \<open>The characters of a string after its opening quote, up to the closing quote, and
  the text that follows it.\<close>

fun json_chars :: "string \<Rightarrow> (string \<times> string) option" where
  "json_chars [] = None"
| "json_chars (c # s) =
     (if c = CHR 0x22 then Some ([], s)
      else if c = CHR 0x5C then
        (case s of
           [] \<Rightarrow> None
         | e # s1 \<Rightarrow>
             if e = CHR ''u'' then
               (case s1 of
                  h1 # h2 # h3 # h4 # s2 \<Rightarrow>
                    (case (hex_digit h1, hex_digit h2, hex_digit h3, hex_digit h4) of
                       (Some a, Some b, Some x, Some y) \<Rightarrow>
                         (case json_chars s2 of
                            None \<Rightarrow> None
                          | Some (t, r) \<Rightarrow> Some (char_of (16 * x + y) # t, r))
                     | _ \<Rightarrow> None)
                | _ \<Rightarrow> None)
             else
               (case json_escape e of
                  None \<Rightarrow> None
                | Some u \<Rightarrow>
                    (case json_chars s1 of
                       None \<Rightarrow> None
                     | Some (t, r) \<Rightarrow> Some (u # t, r))))
      else if (of_char c :: nat) < 32 then None
      else
        (case json_chars s of
           None \<Rightarrow> None
         | Some (t, r) \<Rightarrow> Some (c # t, r)))"

text \<open>The text that follows a number at the head of the input, if there is a number.\<close>

definition json_digits :: "string \<Rightarrow> string option" where
  "json_digits s = (if takeWhile is_digit s = [] then None else Some (dropWhile is_digit s))"

definition json_exponent :: "string \<Rightarrow> string option" where
  "json_exponent s =
     (case s of
        [] \<Rightarrow> Some s
      | e # r \<Rightarrow>
          if e = CHR ''e'' \<or> e = CHR ''E'' then
            (case r of
               [] \<Rightarrow> None
             | g # t \<Rightarrow> if g = CHR ''+'' \<or> g = CHR ''-'' then json_digits t else json_digits r)
          else Some s)"

definition json_fraction :: "string \<Rightarrow> string option" where
  "json_fraction s =
     (case s of
        [] \<Rightarrow> Some s
      | d # r \<Rightarrow>
          if d = CHR ''.'' then Option.bind (json_digits r) json_exponent
          else json_exponent s)"

definition json_number :: "string \<Rightarrow> string option" where
  "json_number s =
     (case (case s of [] \<Rightarrow> s | m # r \<Rightarrow> if m = CHR ''-'' then r else s) of
        [] \<Rightarrow> None
      | d # r \<Rightarrow>
          if d = CHR ''0'' then json_fraction r
          else if is_digit d then json_fraction (dropWhile is_digit r)
          else None)"

text \<open>A value at the head of the input (after white space) and the text that follows
  it; the items of an array after its opening bracket; the members of an object after
  its opening brace. The first argument bounds the number of nested calls.\<close>

fun json_element :: "nat \<Rightarrow> string \<Rightarrow> (json \<times> string) option"
  and json_items :: "nat \<Rightarrow> string \<Rightarrow> (json list \<times> string) option"
  and json_members :: "nat \<Rightarrow> string \<Rightarrow> ((string \<times> json) list \<times> string) option" where
  "json_element 0 s = None"
| "json_element (Suc k) s =
     (case skip_ws s of
        [] \<Rightarrow> None
      | c # r \<Rightarrow>
          if c = CHR ''['' then
            (case skip_ws r of
               [] \<Rightarrow> None
             | d # r1 \<Rightarrow>
                 if d = CHR '']'' then Some (JArray [], r1)
                 else (case json_items k r of
                         None \<Rightarrow> None
                       | Some (vs, r2) \<Rightarrow> Some (JArray vs, r2)))
          else if c = CHR ''{'' then
            (case skip_ws r of
               [] \<Rightarrow> None
             | d # r1 \<Rightarrow>
                 if d = CHR ''}'' then Some (JObject [], r1)
                 else (case json_members k r of
                         None \<Rightarrow> None
                       | Some (ms, r2) \<Rightarrow> Some (JObject ms, r2)))
          else if c = CHR 0x22 then
            (case json_chars r of
               None \<Rightarrow> None
             | Some (t, r1) \<Rightarrow> Some (JString t, r1))
          else if starts_with ''true'' (c # r) then Some (JBool True, drop 4 (c # r))
          else if starts_with ''false'' (c # r) then Some (JBool False, drop 5 (c # r))
          else if starts_with ''null'' (c # r) then Some (JNull, drop 4 (c # r))
          else (case json_number (c # r) of
                  None \<Rightarrow> None
                | Some r1 \<Rightarrow> Some (JNumber, r1)))"
| "json_items 0 s = None"
| "json_items (Suc k) s =
     (case json_element k s of
        None \<Rightarrow> None
      | Some (v, r) \<Rightarrow>
          (case skip_ws r of
             [] \<Rightarrow> None
           | d # r1 \<Rightarrow>
               if d = CHR '','' then
                 (case json_items k r1 of
                    None \<Rightarrow> None
                  | Some (vs, r2) \<Rightarrow> Some (v # vs, r2))
               else if d = CHR '']'' then Some ([v], r1)
               else None))"
| "json_members 0 s = None"
| "json_members (Suc k) s =
     (case skip_ws s of
        [] \<Rightarrow> None
      | q # r \<Rightarrow>
          if q \<noteq> CHR 0x22 then None
          else
            (case json_chars r of
               None \<Rightarrow> None
             | Some (key, r1) \<Rightarrow>
                 (case skip_ws r1 of
                    [] \<Rightarrow> None
                  | c # r2 \<Rightarrow>
                      if c \<noteq> CHR '':'' then None
                      else
                        (case json_element k r2 of
                           None \<Rightarrow> None
                         | Some (v, r3) \<Rightarrow>
                             (case skip_ws r3 of
                                [] \<Rightarrow> None
                              | d # r4 \<Rightarrow>
                                  if d = CHR '','' then
                                    (case json_members k r4 of
                                       None \<Rightarrow> None
                                     | Some (ms, r5) \<Rightarrow> Some ((key, v) # ms, r5))
                                  else if d = CHR ''}'' then Some ([(key, v)], r4)
                                  else None)))))"

text \<open>\<^verbatim>\<open>JSON.parse(text)\<close>. No parse nests deeper than twice the length of the text.\<close>

definition JSON_parse :: "string \<Rightarrow> json option" where
  "JSON_parse s =
     (case json_element (2 * length s + 2) s of
        None \<Rightarrow> None
      | Some (v, r) \<Rightarrow> if skip_ws r = [] then Some v else None)"

text \<open>A parsed value as the cookie replay sees it. The value of a key written twice is
  the last one. An array of objects that each have a string \<^verbatim>\<open>name\<close> and a string
  \<^verbatim>\<open>value\<close> is a list of cookies; whether the browser accepts them is the
  environment's answer.\<close>

definition json_field :: "(string \<times> json) list \<Rightarrow> string \<Rightarrow> json option" where
  "json_field ms key = map_of (rev ms) key"

definition json_string_field :: "(string \<times> json) list \<Rightarrow> string \<Rightarrow> string" where
  "json_string_field ms key = (case json_field ms key of Some (JString t) \<Rightarrow> t | _ \<Rightarrow> [])"

definition json_bool_field :: "(string \<times> json) list \<Rightarrow> string \<Rightarrow> bool" where
  "json_bool_field ms key = (case json_field ms key of Some (JBool b) \<Rightarrow> b | _ \<Rightarrow> False)"

definition cookie_of_json :: "json \<Rightarrow> cookie option" where
  "cookie_of_json v =
     (case v of
        JObject ms \<Rightarrow>
          (case (json_field ms ''name'', json_field ms ''value'') of
             (Some (JString n), Some (JString x)) \<Rightarrow>
               Some \<lparr>ck_name = n, ck_value = Some x,
                     ck_domain = json_string_field ms ''domain'',
                     ck_path = json_string_field ms ''path'',
                     ck_secure = json_bool_field ms ''secure'',
                     ck_httpOnly = json_bool_field ms ''httpOnly'',
                     ck_sameSite = json_string_field ms ''sameSite''\<rparr>
           | _ \<Rightarrow> None)
      | _ \<Rightarrow> None)"

definition cookies_of_json :: "json \<Rightarrow> json_value" where
  "cookies_of_json v =
     (case v of
        JArray vs \<Rightarrow>
          (if list_all (\<lambda>x. cookie_of_json x \<noteq> None) vs
           then JCookies (map (\<lambda>x. the (cookie_of_json x)) vs)
           else JOther)
      | _ \<Rightarrow> JOther)"

definition parse_json_cookies :: json_parser where
  "parse_json_cookies s = map_option cookies_of_json (JSON_parse s)"

text \<open>\<^verbatim>\<open>const [name, value] = cookie.trim().split('=')\<close> and the object literal of
  the fallback branch.\<close>

definition cookie_of_piece :: "string \<Rightarrow> cookie" where
  "cookie_of_piece piece =
     (let parts = js_split CHR ''='' (js_trim piece) in
      \<lparr>ck_name = (case parts of [] \<Rightarrow> [] | n # _ \<Rightarrow> n),
       ck_value = (case parts of _ # v # _ \<Rightarrow> Some v | _ \<Rightarrow> None),
       ck_domain = ''.facebook.com'',
       ck_path = ''/'',
       ck_secure = True,
       ck_httpOnly = True,
       ck_sameSite = ''Lax''\<rparr>)"

definition parseCookies :: "json_parser \<Rightarrow> string \<Rightarrow> json_value" where
  "parseCookies json_parse cookies =
     (case json_parse cookies of
        Some v \<Rightarrow> v
      | None \<Rightarrow> JCookies (map cookie_of_piece (js_split CHR '';'' cookies)))"


section \<open>The world: store, browsers, contexts and page calls\<close>

text \<open>
  A browsing Context as the session manager creates it: the Browser that owns it, the
  proxy descriptor it was created with and the cookies replayed into it.
\<close>

record BrowserContext =
  ctx_browser :: nat
  ctx_proxy :: "js_object option"
  ctx_cookies :: "cookie list"

text \<open>Calls made on a Page (or on a locator or element handle of it), in the order issued.
  The argument is the URL, the selector or the text typed; the random length of a
  \<^verbatim>\<open>waitForTimeout\<close> is left out, and a text typed one character at a time is one
  \<open>TypeText\<close>. Several waits raced under \<^verbatim>\<open>Promise.race\<close> are one call.\<close>

datatype page_call =
    Goto string
  | WaitForTimeout
  | WaitForSelector string
  | WaitForLoadState
  | Evaluate string
  | QueryAll string
  | IsVisible string
  | Count string
  | TextContent string
  | GetAttribute string
  | Click string
  | Fill string
  | TypeText string
  | Reload
  | ReadCookies

text \<open>
  \<open>browsers\<close> holds the \<^verbatim>\<open>headless\<close> flag of every Browser launched so far; a
  Browser is named by its index there, a Context by its index in \<open>contexts\<close>, and the one
  Page of a Context by the Context's index. \<open>globalBrowser\<close> is the module variable of
  playwright-config. The close lists record every \<^verbatim>\<open>close()\<close> call in order.
  \<open>local_context\<close> and \<open>local_page\<close> are the variables \<^verbatim>\<open>context\<close> and \<^verbatim>\<open>page\<close>
  of the handler that is running, which its \<^verbatim>\<open>finally\<close> block reads. Time stamps of rows
  are left out.
\<close>

record world =
  social_accounts :: "account list"
  tasks :: "task list"
  task_logs :: "task_log list"
  globalBrowser :: "nat option"
  browsers :: "bool list"
  browser_closes :: "nat list"
  contexts :: "BrowserContext list"
  context_closes :: "nat list"
  page_closes :: "nat list"
  page_calls :: "page_call list"
  local_context :: "nat option"
  local_page :: "nat option"

text \<open>
  How an awaited call on something outside the program settles is decided by the
  environment: it resolves with a value or rejects with an \<^verbatim>\<open>Error\<close> of some message.
  Every value thrown in these files is an \<^verbatim>\<open>Error\<close>, so a thrown value is its message.
\<close>

datatype 'a outcome = Resolves 'a | Rejects string

type_synonym failure = "string option"

text \<open>
  A statement completes normally with a value, or throws, or (in the one loop that has
  no bound of its own) is still running when the fuel is used up.
\<close>

datatype 'a completion = Normal 'a | Throw string | OutOfFuel

type_synonym 'a io = "world \<Rightarrow> 'a completion \<times> world"

definition ret :: "'a \<Rightarrow> 'a io" where
  "ret x w = (Normal x, w)"

definition throw :: "string \<Rightarrow> 'a io" where
  "throw m w = (Throw m, w)"

definition andThen :: "'a io \<Rightarrow> ('a \<Rightarrow> 'b io) \<Rightarrow> 'b io" where
  "andThen m f w =
     (case m w of
        (Normal x, w') \<Rightarrow> f x w'
      | (Throw e, w') \<Rightarrow> (Throw e, w')
      | (OutOfFuel, w') \<Rightarrow> (OutOfFuel, w'))"

text \<open>\<^verbatim>\<open>try { m } catch (error) { h error }\<close>\<close>

definition try_catch :: "'a io \<Rightarrow> (string \<Rightarrow> 'a io) \<Rightarrow> 'a io" where
  "try_catch m h w =
     (case m w of
        (Throw e, w') \<Rightarrow> h e w'
      | r \<Rightarrow> r)"

text \<open>\<^verbatim>\<open>try { m } finally { fin }\<close>: the finaliser runs after a normal completion and
  after a throw, and its own throw replaces the completion of the block.\<close>

definition try_finally :: "'a io \<Rightarrow> unit io \<Rightarrow> 'a io" where
  "try_finally m fin w =
     (case m w of
        (OutOfFuel, w') \<Rightarrow> (OutOfFuel, w')
      | (r, w') \<Rightarrow>
          (case fin w' of
             (Normal u, w'') \<Rightarrow> (r, w'')
           | (Throw e, w'') \<Rightarrow> (Throw e, w'')
           | (OutOfFuel, w'') \<Rightarrow> (OutOfFuel, w'')))"

definition modify :: "(world \<Rightarrow> world) \<Rightarrow> unit io" where
  "modify f w = (Normal (), f w)"

definition await :: "'a outcome \<Rightarrow> 'a io" where
  "await r w = (case r of Resolves x \<Rightarrow> (Normal x, w) | Rejects m \<Rightarrow> (Throw m, w))"

definition await_unit :: "failure \<Rightarrow> unit io" where
  "await_unit f w = (case f of None \<Rightarrow> (Normal (), w) | Some m \<Rightarrow> (Throw m, w))"

text \<open>\<^verbatim>\<open>promise.catch(() => d)\<close>\<close>

definition catch_default :: "'a \<Rightarrow> 'a outcome \<Rightarrow> 'a outcome" where
  "catch_default d r = (case r of Resolves x \<Rightarrow> Resolves x | Rejects m \<Rightarrow> Resolves d)"

text \<open>\<^verbatim>\<open>promise.then(g)\<close>\<close>

definition then_map :: "('a \<Rightarrow> 'b) \<Rightarrow> 'a outcome \<Rightarrow> 'b outcome" where
  "then_map g r = (case r of Resolves x \<Rightarrow> Resolves (g x) | Rejects m \<Rightarrow> Rejects m)"

text \<open>One call on the page: it is recorded, then settles as the environment says.\<close>

definition page_get :: "page_call \<Rightarrow> 'a outcome \<Rightarrow> 'a io" where
  "page_get c r = andThen (modify (\<lambda>w. w\<lparr>page_calls := page_calls w @ [c]\<rparr>)) (\<lambda>u. await r)"

definition page_do :: "page_call \<Rightarrow> failure \<Rightarrow> unit io" where
  "page_do c f = andThen (modify (\<lambda>w. w\<lparr>page_calls := page_calls w @ [c]\<rparr>)) (\<lambda>u. await_unit f)"

text \<open>
  A straight run of awaited calls whose values are not used. The environment names the
  first call of the run that rejects, by position, and the message; the calls before it
  resolve and the calls after it are never issued.
\<close>

fun page_run :: "page_call list \<Rightarrow> (nat \<times> string) option \<Rightarrow> unit io" where
  "page_run [] f = ret ()"
| "page_run (c # cs) f =
     (case f of
        None \<Rightarrow> andThen (page_do c None) (\<lambda>u. page_run cs None)
      | Some (0, m) \<Rightarrow> page_do c (Some m)
      | Some (Suc n, m) \<Rightarrow> andThen (page_do c None) (\<lambda>u. page_run cs (Some (n, m))))"


section \<open>The store\<close>

text \<open>\<^verbatim>\<open>.select('*').eq(...).single()\<close>: the row when exactly one row matches, an
  error (here \<open>None\<close>) otherwise.\<close>

definition select_single :: "(account \<Rightarrow> bool) \<Rightarrow> account option io" where
  "select_single P w =
     (case filter P (social_accounts w) of
        [a] \<Rightarrow> (Normal (Some a), w)
      | _ \<Rightarrow> (Normal None, w))"

text \<open>The store gives a new task row an identifier no other row has.\<close>

definition next_task_id :: "task list \<Rightarrow> nat" where
  "next_task_id ts = Suc (fold max (map task_id ts) 0)"

text \<open>\<^verbatim>\<open>.from('tasks').insert([taskData]).select().single()\<close>: the inserted row, or an
  error (here \<open>None\<close>) when the store refuses the row.\<close>

definition insert_task :: "bool \<Rightarrow> task \<Rightarrow> task option io" where
  "insert_task refused t w =
     (if refused then (Normal None, w)
      else let row = t\<lparr>task_id := next_task_id (tasks w)\<rparr>
           in (Normal (Some row), w\<lparr>tasks := tasks w @ [row]\<rparr>))"

text \<open>The routes do not look at the result of these two writes; they are taken to
  succeed.\<close>

definition insert_log :: "nat \<Rightarrow> log_result \<Rightarrow> string \<Rightarrow> unit io" where
  "insert_log tid r m =
     modify (\<lambda>w. w\<lparr>task_logs := task_logs w @
        [\<lparr>log_task_id = tid, log_result = r, log_message = m\<rparr>]\<rparr>)"

definition update_task_status :: "nat \<Rightarrow> task_status \<Rightarrow> unit io" where
  "update_task_status tid s =
     modify (\<lambda>w. w\<lparr>tasks := map (\<lambda>t. if task_id t = tid then t\<lparr>status := s\<rparr> else t) (tasks w)\<rparr>)"

definition update_accounts :: "(account \<Rightarrow> bool) \<Rightarrow> (account \<Rightarrow> account) \<Rightarrow> unit io" where
  "update_accounts P f =
     modify (\<lambda>w. w\<lparr>social_accounts := map (\<lambda>a. if P a then f a else a) (social_accounts w)\<rparr>)"

text \<open>The \<^verbatim>\<open>catch\<close> block every route puts around its driver: a \<^verbatim>\<open>failed\<close> log entry
  with the message of the error, the task set to \<^verbatim>\<open>failed\<close>, and \<^verbatim>\<open>throw error\<close>.\<close>

definition fail_task :: "nat \<Rightarrow> string \<Rightarrow> 'a io" where
  "fail_task tid error =
     andThen (insert_log tid LogFailed error) (\<lambda>u.
     andThen (update_task_status tid Failed) (\<lambda>u.
     throw error))"


section \<open>The session manager (playwright-config)\<close>

text \<open>How the calls of the session set-up settle: \<^verbatim>\<open>JSON.parse\<close>, and for each awaited
  call the message it rejects with, if it does.\<close>

record setup_env =
  json_parse :: json_parser
  launch_error :: failure
  newContext_error :: failure
  addCookies_error :: failure
  context_initScript_error :: failure
  newPage_error :: failure
  page_initScript_error :: failure

text \<open>\<^verbatim>\<open>chromium.launch({...BROWSER_CONFIG, headless})\<close>: a new Browser process.\<close>

definition chromium_launch :: "bool \<Rightarrow> failure \<Rightarrow> nat io" where
  "chromium_launch headless f w =
     (case f of
        Some m \<Rightarrow> (Throw m, w)
      | None \<Rightarrow> (Normal (length (browsers w)), w\<lparr>browsers := browsers w @ [headless]\<rparr>))"

text \<open>\<^verbatim>\<open>browser.newContext(contextConfig)\<close>\<close>

definition browser_newContext :: "nat \<Rightarrow> js_object option \<Rightarrow> failure \<Rightarrow> nat io" where
  "browser_newContext b proxy f w =
     (case f of
        Some m \<Rightarrow> (Throw m, w)
      | None \<Rightarrow> (Normal (length (contexts w)),
                 w\<lparr>contexts := contexts w @
                    [\<lparr>ctx_browser = b, ctx_proxy = proxy, ctx_cookies = []\<rparr>]\<rparr>))"

text \<open>\<^verbatim>\<open>context.addCookies(parsedCookies)\<close>: rejects what is not an array of cookies,
  and otherwise as the environment says.\<close>

definition context_addCookies :: "nat \<Rightarrow> json_value \<Rightarrow> failure \<Rightarrow> unit io" where
  "context_addCookies c v f w =
     (case v of
        JOther \<Rightarrow> (Throw ''cookies: expected array'', w)
      | JCookies cs \<Rightarrow>
          (case f of
             Some m \<Rightarrow> (Throw m, w)
           | None \<Rightarrow> (Normal (),
               w\<lparr>contexts := (contexts w)
                  [c := (contexts w ! c)\<lparr>ctx_cookies := ctx_cookies (contexts w ! c) @ cs\<rparr>]\<rparr>)))"

text \<open>The three \<^verbatim>\<open>close()\<close> calls are recorded and taken to resolve.\<close>

definition context_close :: "nat \<Rightarrow> unit io" where
  "context_close c = modify (\<lambda>w. w\<lparr>context_closes := context_closes w @ [c]\<rparr>)"

definition page_close :: "nat \<Rightarrow> unit io" where
  "page_close p = modify (\<lambda>w. w\<lparr>page_closes := page_closes w @ [p]\<rparr>)"

definition browser_close :: "nat \<Rightarrow> unit io" where
  "browser_close b = modify (\<lambda>w. w\<lparr>browser_closes := browser_closes w @ [b]\<rparr>)"

definition initGlobalBrowser :: "setup_env \<Rightarrow> nat io" where
  "initGlobalBrowser env w =
     (case globalBrowser w of
        None \<Rightarrow>
          andThen (chromium_launch True (launch_error env)) (\<lambda>b.
          andThen (modify (\<lambda>w. w\<lparr>globalBrowser := Some b\<rparr>)) (\<lambda>u.
          ret b)) w
      | Some b \<Rightarrow> (Normal b, w))"

text \<open>The block shared by \<^verbatim>\<open>createStealthContext\<close> and \<^verbatim>\<open>createStealthSetup\<close>:
  \<^verbatim>\<open>if (cookies) { try { addCookies(parseCookies(cookies)) } catch { console.error } }\<close>\<close>

definition restore_cookies :: "setup_env \<Rightarrow> nat \<Rightarrow> string option \<Rightarrow> unit io" where
  "restore_cookies env c cookies =
     (if truthy_str cookies then
        try_catch
          (context_addCookies c (parseCookies (json_parse env) (the cookies))
             (addCookies_error env))
          (\<lambda>error. ret ())
      else ret ())"

definition createStealthContext :: "setup_env \<Rightarrow> string option \<Rightarrow> js_object option \<Rightarrow> nat io" where
  "createStealthContext env cookies proxy =
     andThen (initGlobalBrowser env) (\<lambda>browser.
     andThen (browser_newContext browser proxy (newContext_error env)) (\<lambda>context.
     andThen (restore_cookies env context cookies) (\<lambda>u.
     andThen (await_unit (context_initScript_error env)) (\<lambda>u.
     ret context))))"

definition cleanup :: "unit io" where
  "cleanup w =
     (case globalBrowser w of
        Some b \<Rightarrow>
          andThen (browser_close b) (\<lambda>u.
          modify (\<lambda>w. w\<lparr>globalBrowser := None\<rparr>)) w
      | None \<Rightarrow> (Normal (), w))"

text \<open>\<^verbatim>\<open>createStealthSetup\<close> returns \<^verbatim>\<open>{ context, page }\<close>; the page is always a Page
  object, written \<open>Some\<close> here because the callers test it.\<close>

definition createStealthSetup ::
  "setup_env \<Rightarrow> string option \<Rightarrow> js_object option \<Rightarrow> bool \<Rightarrow> (nat \<times> nat option) io" where
  "createStealthSetup env cookies proxy headless =
     andThen (chromium_launch headless (launch_error env)) (\<lambda>browser.
     andThen (browser_newContext browser proxy (newContext_error env)) (\<lambda>context.
     andThen (restore_cookies env context cookies) (\<lambda>u.
     andThen (await_unit (context_initScript_error env)) (\<lambda>u.
     andThen (await_unit (newPage_error env)) (\<lambda>u.
     andThen (await_unit (page_initScript_error env)) (\<lambda>u.
     ret (context, Some context)))))))"


section \<open>HTTP responses\<close>

text \<open>The JSON body and status of a \<^verbatim>\<open>NextResponse.json\<close>; the \<^verbatim>\<open>details\<close> text and
  the echoed account row are left out.\<close>

record response =
  http_status :: nat
  r_success :: "bool option"
  r_message :: "string option"
  r_error :: "string option"
  r_taskId :: "nat option"
  r_requiresMfa :: "bool option"

definition json_error :: "nat \<Rightarrow> string \<Rightarrow> response" where
  "json_error code e =
     \<lparr>http_status = code, r_success = None, r_message = None, r_error = Some e,
      r_taskId = None, r_requiresMfa = None\<rparr>"

definition json_result :: "bool \<Rightarrow> string \<Rightarrow> nat option \<Rightarrow> response" where
  "json_result ok m tid =
     \<lparr>http_status = 200, r_success = Some ok, r_message = Some m, r_error = None,
      r_taskId = tid, r_requiresMfa = None\<rparr>"

text \<open>The finaliser of the handlers: \<^verbatim>\<open>if (context) await context.close()\<close>, and the
  same for the page.\<close>

definition close_local_context :: "unit io" where
  "close_local_context w =
     (case local_context w of Some c \<Rightarrow> context_close c w | None \<Rightarrow> (Normal (), w))"

definition close_local_page :: "unit io" where
  "close_local_page w =
     (case local_page w of Some p \<Rightarrow> page_close p w | None \<Rightarrow> (Normal (), w))"

definition declare_locals :: "unit io" where
  "declare_locals = modify (\<lambda>w. w\<lparr>local_context := None, local_page := None\<rparr>)"

definition assign_locals :: "nat \<times> nat option \<Rightarrow> unit io" where
  "assign_locals setup =
     modify (\<lambda>w. w\<lparr>local_context := Some (fst setup), local_page := snd setup\<rparr>)"


section \<open>The facebook create-post route\<close>

text \<open>Selectors are written without their inner quotation marks, and the long class
  lists of the facebook selectors are shortened.\<close>

record post_env =
  pe_setup :: setup_env
  pe_navigate :: "(nat \<times> string) option"
  pe_postButton :: "bool outcome"
  pe_open_dialog :: "(nat \<times> string) option"
  pe_textArea :: "bool outcome"
  pe_typing :: "(nat \<times> string) option"
  pe_typedContent :: "string option outcome"
  pe_pause :: "(nat \<times> string) option"
  pe_clicked :: "bool outcome"
  pe_settle :: "(nat \<times> string) option"
  pe_postContent :: "bool outcome"

definition content_of :: "task \<Rightarrow> string" where
  "content_of t = (case map_of (action_data t) ''content'' of Some (Some c) \<Rightarrow> c | _ \<Rightarrow> [])"

text \<open>The body of the \<^verbatim>\<open>try\<close> block of \<^verbatim>\<open>executePost\<close> after the session is open:
  the DOM protocol, each \<^verbatim>\<open>throw new Error\<close> in its place. The two loops that only read
  attributes for debugging belong to the \<^verbatim>\<open>page.$$\<close> call before them.\<close>

definition post_protocol :: "post_env \<Rightarrow> task \<Rightarrow> string \<Rightarrow> unit io" where
  "post_protocol env t username =
     andThen (page_run [Goto ''https://www.facebook.com/'', WaitForTimeout,
                        Goto (''https://www.facebook.com/'' @ username), WaitForTimeout,
                        QueryAll ''div''] (pe_navigate env)) (\<lambda>u.
     andThen (page_get (WaitForSelector ''div[role=button]:has-text(What is on your mind?)'')
                (pe_postButton env)) (\<lambda>postButton.
     if \<not> postButton then throw ''Could not find post creation button'' else
     andThen (page_run [Click ''postButton'', WaitForTimeout, QueryAll ''div[role=dialog] *'']
                (pe_open_dialog env)) (\<lambda>u.
     andThen (page_get (WaitForSelector ''div[contenteditable=true][role=textbox]'')
                (pe_textArea env)) (\<lambda>textArea.
     if \<not> textArea then throw ''Could not find post input area'' else
     andThen (page_run [Click ''textArea'', TypeText (content_of t)] (pe_typing env)) (\<lambda>u.
     andThen (page_get (Evaluate ''typedContent'') (pe_typedContent env)) (\<lambda>typedContent.
     if \<not> truthy_str typedContent \<or> js_trim (the typedContent) \<noteq> js_trim (content_of t)
     then throw ''Failed to type content into text area'' else
     andThen (page_run [WaitForTimeout, WaitForTimeout] (pe_pause env)) (\<lambda>u.
     andThen (page_get (Evaluate ''clicked'') (pe_clicked env)) (\<lambda>clicked.
     if \<not> clicked then throw ''Could not find or click Post button'' else
     andThen (page_run [WaitForLoadState, WaitForTimeout] (pe_settle env)) (\<lambda>u.
     andThen (page_get (WaitForSelector ''div:has-text(content)'') (pe_postContent env))
       (\<lambda>postContent.
     if \<not> postContent then throw ''Post content not found after posting'' else
     ret ()))))))))))"

definition executePost_try :: "post_env \<Rightarrow> task \<Rightarrow> string \<Rightarrow> unit io" where
  "executePost_try env t username =
     andThen (select_single (\<lambda>a. acc_id a = social_account_id t)) (\<lambda>account.
     case account of
       None \<Rightarrow> throw ''Account not found''
     | Some a \<Rightarrow>
         andThen (createStealthSetup (pe_setup env) (acc_cookies a) (proxyConfig_post a) True)
           (\<lambda>setup.
         andThen (assign_locals setup) (\<lambda>u.
         if snd setup = None then throw ''Failed to create new page'' else
         andThen (if proxyConfig_post a \<noteq> None
                  then update_accounts (\<lambda>x. acc_id x = social_account_id t)
                         (\<lambda>x. x\<lparr>proxy_last_used := True\<rparr>)
                  else ret ()) (\<lambda>u.
         andThen (post_protocol env t username) (\<lambda>u.
         andThen (insert_log (task_id t) LogSuccess ''Post created successfully'') (\<lambda>u.
         update_task_status (task_id t) Completed))))))"

text \<open>The \<^verbatim>\<open>finally\<close> block of \<^verbatim>\<open>executePost\<close>.\<close>

definition executePost_finally :: "unit io" where
  "executePost_finally =
     andThen close_local_page (\<lambda>u.
     andThen close_local_context (\<lambda>u.
     cleanup))"

definition executePost :: "post_env \<Rightarrow> task \<Rightarrow> string \<Rightarrow> unit io" where
  "executePost env t username =
     andThen declare_locals (\<lambda>u.
     try_finally
       (try_catch (executePost_try env t username) (fail_task (task_id t)))
       executePost_finally)"

text \<open>The multipart form of the request; a field that is missing reads as \<^verbatim>\<open>null\<close>.
  \<open>pr_media\<close> is the name of the attached file.\<close>

record post_request =
  pr_session :: "string option"
  pr_formData :: failure
  pr_accountId :: "string option"
  pr_content :: "string option"
  pr_scheduleType :: "string option"
  pr_scheduleTime :: "string option"
  pr_media :: "string option"
  pr_mediaType :: "string option"
  pr_media_write :: "string outcome"
  pr_task_refused :: bool

definition post_taskData :: "post_request \<Rightarrow> string option \<Rightarrow> task" where
  "post_taskData req mediaPath =
     \<lparr>task_id = 0,
      task_user_id = the (pr_session req),
      social_account_id = the (pr_accountId req),
      task_type = ''post'',
      action_data = [(''content'', pr_content req), (''media_path'', mediaPath),
                     (''media_type'', pr_mediaType req)],
      schedule_type = (if pr_scheduleType req = Some ''now'' then ''once'' else ''scheduled''),
      status = Active\<rparr>"

definition POST_create_post_try :: "post_env \<Rightarrow> post_request \<Rightarrow> response io" where
  "POST_create_post_try env req =
     (if pr_session req = None then ret (json_error 401 ''Unauthorized'') else
      andThen (await_unit (pr_formData req)) (\<lambda>u.
      if \<not> truthy_str (pr_accountId req) \<or> \<not> truthy_str (pr_content req)
      then ret (json_error 400 ''Missing required fields'') else
      andThen (select_single (\<lambda>a. acc_id a = the (pr_accountId req)
                                 \<and> acc_user_id a = the (pr_session req))) (\<lambda>account.
      if account = None then ret (json_error 404 ''Account not found'') else
      andThen (if pr_media req \<noteq> None
               then andThen (await (pr_media_write req)) (\<lambda>path. ret (Some path))
               else ret None) (\<lambda>mediaPath.
      andThen (insert_task (pr_task_refused req) (post_taskData req mediaPath)) (\<lambda>inserted.
      case inserted of
        None \<Rightarrow> ret (json_error 500 ''Failed to create task'')
      | Some t \<Rightarrow>
          andThen (select_single (\<lambda>a. acc_id a = the (pr_accountId req))) (\<lambda>socialAccount.
          case socialAccount of
            None \<Rightarrow> ret (json_error 500 ''Failed to fetch social account data'')
          | Some sa \<Rightarrow>
              andThen (if pr_scheduleType req = Some ''now''
                       then try_catch (executePost env t (acc_username sa))
                              (\<lambda>error. insert_log (task_id t) LogFailed error)
                       else ret ()) (\<lambda>u.
              ret \<lparr>http_status = 200, r_success = None,
                   r_message = Some (if pr_scheduleType req = Some ''now''
                                     then ''Post created successfully''
                                     else ''Post scheduled successfully''),
                   r_error = None, r_taskId = Some (task_id t),
                   r_requiresMfa = None\<rparr>)))))))"

definition POST_create_post :: "post_env \<Rightarrow> post_request \<Rightarrow> response io" where
  "POST_create_post env req =
     try_catch (POST_create_post_try env req)
       (\<lambda>error. ret (json_error 500 ''Internal server error''))"


section \<open>Request bodies and their schemas\<close>

text \<open>
  A field of a JSON body as a \<^verbatim>\<open>z.string()\<close> sees it: absent, present but not a string,
  or a string. The format checks of the schema library (\<^verbatim>\<open>.uuid()\<close>, \<^verbatim>\<open>.url()\<close>,
  \<^verbatim>\<open>.email()\<close>) are parameters. A failed \<^verbatim>\<open>parse\<close> throws the library's error, whose
  message (a rendering of the issues) is abbreviated to \<open>zod_error\<close>.
\<close>

datatype raw_field = Absent | NonString | Str string

definition zod_error :: string where
  "zod_error = ''ZodError''"

text \<open>\<^verbatim>\<open>z.string().min(1, ...)\<close>\<close>

definition string_min1 :: "raw_field \<Rightarrow> string option" where
  "string_min1 f = (case f of Str s \<Rightarrow> (if s \<noteq> [] then Some s else None) | _ \<Rightarrow> None)"

text \<open>\<^verbatim>\<open>z.string()\<close> followed by a format check\<close>

definition string_where :: "(string \<Rightarrow> bool) \<Rightarrow> raw_field \<Rightarrow> string option" where
  "string_where ok f = (case f of Str s \<Rightarrow> (if ok s then Some s else None) | _ \<Rightarrow> None)"

text \<open>\<^verbatim>\<open>z.string().optional()\<close>: the outer \<open>None\<close> is a rejection, the inner one
  \<^verbatim>\<open>undefined\<close>.\<close>

definition string_optional :: "raw_field \<Rightarrow> string option option" where
  "string_optional f =
     (case f of Absent \<Rightarrow> Some None | Str s \<Rightarrow> Some (Some s) | NonString \<Rightarrow> None)"


section \<open>The twitter follow route\<close>

datatype follow_action = Follow | Unfollow

definition action_name :: "follow_action \<Rightarrow> string" where
  "action_name a = (case a of Follow \<Rightarrow> ''follow'' | Unfollow \<Rightarrow> ''unfollow'')"

record follow_body =
  fb_username :: raw_field
  fb_accountId :: raw_field
  fb_action :: raw_field

text \<open>\<^verbatim>\<open>z.enum(['follow', 'unfollow']).default('follow')\<close>\<close>

definition action_enum :: "raw_field \<Rightarrow> follow_action option" where
  "action_enum f =
     (case f of
        Absent \<Rightarrow> Some Follow
      | Str s \<Rightarrow> (if s = ''follow'' then Some Follow
                  else if s = ''unfollow'' then Some Unfollow else None)
      | NonString \<Rightarrow> None)"

definition followUserSchema ::
  "(string \<Rightarrow> bool) \<Rightarrow> follow_body \<Rightarrow> (string \<times> string \<times> follow_action) option" where
  "followUserSchema uuid body =
     (case (string_min1 (fb_username body), string_where uuid (fb_accountId body),
            action_enum (fb_action body)) of
        (Some username, Some accountId, Some action) \<Rightarrow> Some (username, accountId, action)
      | _ \<Rightarrow> None)"

record follow_request =
  fq_session :: "string option"
  fq_json :: "follow_body outcome"

text \<open>How the environment answers the calls of the route. The fields indexed by a
  number are asked once in every pass of the search loop, with the number of the pass.\<close>

record follow_env =
  fe_uuid :: "string \<Rightarrow> bool"
  fe_task_refused :: bool
  fe_setup :: setup_env
  fe_open_profile :: "(nat \<times> string) option"
  fe_state :: "(bool \<times> bool) outcome"
  fe_race :: "nat \<Rightarrow> failure"
  fe_visible :: "nat \<Rightarrow> nat \<Rightarrow> bool outcome"
  fe_retry :: "nat \<Rightarrow> (nat \<times> string) option"
  fe_click :: failure
  fe_confirm :: "(nat \<times> string) option"
  fe_settle :: failure

definition buttonSelectors :: "follow_action \<Rightarrow> string list" where
  "buttonSelectors a =
     (if a = Follow then
        [''[data-testid$=-follow]'',
         ''button[aria-label=Follow @rihanna]'',
         ''button[aria-label*=Follow]'',
         ''[data-testid=placementTracking] button[aria-label*=Follow]'']
      else
        [''[data-testid$=-unfollow]'',
         ''button[aria-label=Following @rihanna]'',
         ''button[aria-label*=Following]'',
         ''[data-testid=placementTracking] button[aria-label*=Following]''])"

text \<open>\<^verbatim>\<open>for (const selector of buttonSelectors) { if (await
  page.locator(selector).first().isVisible()) { actionButton = button; break } }\<close>\<close>

fun first_visible :: "(nat \<Rightarrow> bool outcome) \<Rightarrow> nat \<Rightarrow> string list \<Rightarrow> string option io" where
  "first_visible vis k [] = ret None"
| "first_visible vis k (s # ss) =
     andThen (page_get (IsVisible s) (vis k)) (\<lambda>visible.
     if visible then ret (Some s) else first_visible vis (Suc k) ss)"

text \<open>What one pass of the search loop leaves behind: the button, a \<^verbatim>\<open>break\<close> without a
  button, or another pass with the given \<^verbatim>\<open>retryCount\<close>.\<close>

datatype pass = Found string | Broke | Again nat

text \<open>
  \<^verbatim>\<open>while (retryCount < maxRetries && !actionButton) { try { ... } catch (error) {
  retryCount++; ... } }\<close> with \<^verbatim>\<open>maxRetries = 3\<close>. A pass in which the race resolves and
  no button is visible throws nothing and leaves \<^verbatim>\<open>retryCount\<close> as it was, so the loop
  has no bound of its own: the first argument is fuel, the fourth counts the passes.
\<close>

fun find_action_button ::
  "nat \<Rightarrow> follow_env \<Rightarrow> string list \<Rightarrow> nat \<Rightarrow> nat \<Rightarrow> string option io" where
  "find_action_button 0 env sels i retryCount = (\<lambda>w. (OutOfFuel, w))"
| "find_action_button (Suc fuel) env sels i retryCount =
     (if retryCount < 3 then
        andThen
          (try_catch
             (andThen (page_do (WaitForSelector ''race(buttonSelectors)'') (fe_race env i)) (\<lambda>u.
              andThen (first_visible (fe_visible env i) 0 sels) (\<lambda>actionButton.
              ret (case actionButton of Some b \<Rightarrow> Found b | None \<Rightarrow> Again retryCount))))
             (\<lambda>error.
                if Suc retryCount < 3 then
                  try_catch
                    (andThen (page_run [WaitForTimeout, Reload, WaitForTimeout] (fe_retry env i))
                       (\<lambda>u. ret (Again (Suc retryCount))))
                    (\<lambda>retryError. ret Broke)
                else ret (Again (Suc retryCount))))
          (\<lambda>p. case p of
                 Found b \<Rightarrow> ret (Some b)
               | Broke \<Rightarrow> ret None
               | Again rc \<Rightarrow> find_action_button fuel env sels (Suc i) rc)
      else ret None)"

definition follow_taskData :: "string \<Rightarrow> string \<Rightarrow> string \<Rightarrow> follow_action \<Rightarrow> task" where
  "follow_taskData uid accountId username action =
     \<lparr>task_id = 0,
      task_user_id = uid,
      social_account_id = accountId,
      task_type = action_name action,
      action_data = [(''username'', Some username), (''action_type'', Some (action_name action))],
      schedule_type = ''once'',
      status = Active\<rparr>"

text \<open>The inner \<^verbatim>\<open>try\<close> block of the follow route.\<close>

definition follow_protocol ::
  "nat \<Rightarrow> follow_env \<Rightarrow> nat \<Rightarrow> string \<Rightarrow> follow_action \<Rightarrow> response io" where
  "follow_protocol fuel env tid username action =
     andThen (page_run [Goto (''https://x.com/'' @ username), WaitForTimeout]
                (fe_open_profile env)) (\<lambda>u.
     andThen (page_get (Evaluate ''isFollowing'') (fe_state env)) (\<lambda>isFollowing.
     if action = Follow \<and> fst isFollowing then
       andThen (insert_log tid LogSuccess ''User is already being followed'') (\<lambda>u.
       ret (json_result True ''User is already being followed'' (Some tid)))
     else if action = Unfollow \<and> snd isFollowing then
       andThen (insert_log tid LogSuccess ''User is not being followed'') (\<lambda>u.
       ret (json_result True ''User is not being followed'' (Some tid)))
     else
       andThen (find_action_button fuel env (buttonSelectors action) 0 0) (\<lambda>actionButton.
       case actionButton of
         None \<Rightarrow>
           (if action = Unfollow then
              andThen (insert_log tid LogSuccess ''User is not being followed'') (\<lambda>u.
              andThen (update_task_status tid Completed) (\<lambda>u.
              ret (json_result True ''User is not being followed'' (Some tid))))
            else throw (''Could not find '' @ action_name action
                         @ '' button after multiple attempts''))
       | Some b \<Rightarrow>
           andThen (page_do (Click b) (fe_click env)) (\<lambda>u.
           andThen (if action = Unfollow
                    then page_run [WaitForSelector ''[data-testid=confirmationSheetConfirm]'',
                                   Click ''[data-testid=confirmationSheetConfirm]'',
                                   WaitForTimeout] (fe_confirm env)
                    else ret ()) (\<lambda>u.
           andThen (page_do WaitForTimeout (fe_settle env)) (\<lambda>u.
           andThen (insert_log tid LogSuccess
                      (''User '' @ action_name action @ ''ed successfully'')) (\<lambda>u.
           andThen (update_task_status tid Completed) (\<lambda>u.
           ret (json_result True (''User '' @ action_name action @ ''ed successfully'')
                  (Some tid))))))))))"

definition POST_twitter_follow_try ::
  "nat \<Rightarrow> follow_env \<Rightarrow> follow_request \<Rightarrow> response io" where
  "POST_twitter_follow_try fuel env req =
     (if fq_session req = None then ret (json_error 401 ''Unauthorized'') else
      andThen (await (fq_json req)) (\<lambda>body.
      case followUserSchema (fe_uuid env) body of
        None \<Rightarrow> throw zod_error
      | Some (username, accountId, action) \<Rightarrow>
      andThen (select_single (\<lambda>a. acc_id a = accountId
                                 \<and> acc_user_id a = the (fq_session req))) (\<lambda>account.
      case account of
        None \<Rightarrow> ret (json_error 404 ''Account not found'')
      | Some a \<Rightarrow>
      andThen (insert_task (fe_task_refused env)
                 (follow_taskData (the (fq_session req)) accountId username action))
        (\<lambda>inserted.
      case inserted of
        None \<Rightarrow> ret (json_error 500 ''Failed to create task'')
      | Some t \<Rightarrow>
      andThen (createStealthSetup (fe_setup env) (acc_cookies a) (proxyConfig a) True)
        (\<lambda>setup.
      andThen (assign_locals setup) (\<lambda>u.
      andThen (if snd setup = None
               then fail_task (task_id t) ''Failed to create new page''
               else ret ()) (\<lambda>u.
      try_finally
        (try_catch (follow_protocol fuel env (task_id t) username action)
           (fail_task (task_id t)))
        close_local_context)))))))"

definition POST_twitter_follow ::
  "nat \<Rightarrow> follow_env \<Rightarrow> follow_request \<Rightarrow> response io" where
  "POST_twitter_follow fuel env req =
     andThen declare_locals (\<lambda>u.
     try_catch (POST_twitter_follow_try fuel env req)
       (\<lambda>error. ret (json_error 500 error)))"


section \<open>The twitter like route\<close>

record like_body =
  lb_tweetUrl :: raw_field
  lb_accountId :: raw_field

definition likeTweetSchema ::
  "(string \<Rightarrow> bool) \<Rightarrow> (string \<Rightarrow> bool) \<Rightarrow> like_body \<Rightarrow> (string \<times> string) option" where
  "likeTweetSchema url uuid body =
     (case (string_where url (lb_tweetUrl body), string_where uuid (lb_accountId body)) of
        (Some tweetUrl, Some accountId) \<Rightarrow> Some (tweetUrl, accountId)
      | _ \<Rightarrow> None)"

record like_request =
  lq_session :: "string option"
  lq_json :: "like_body outcome"

record like_env =
  le_url :: "string \<Rightarrow> bool"
  le_uuid :: "string \<Rightarrow> bool"
  le_task_refused :: bool
  le_setup :: setup_env
  le_open_tweet :: "(nat \<times> string) option"
  le_isAlreadyLiked :: "bool outcome"
  le_likeButton :: failure
  le_initialLikeCount :: "string option outcome"
  le_click :: "(nat \<times> string) option"
  le_unlike_testid :: "nat \<Rightarrow> bool outcome"
  le_unlike_button :: "nat \<Rightarrow> bool outcome"
  le_unlike_div :: "nat \<Rightarrow> bool outcome"
  le_newCount :: "nat \<Rightarrow> string option outcome"
  le_verify_wait :: "nat \<Rightarrow> failure"
  le_final_wait :: failure

definition like_taskData :: "string \<Rightarrow> string \<Rightarrow> string \<Rightarrow> task" where
  "like_taskData uid accountId tweetUrl =
     \<lparr>task_id = 0,
      task_user_id = uid,
      social_account_id = accountId,
      task_type = ''like'',
      action_data = [(''tweet_url'', Some tweetUrl), (''action_type'', Some ''like'')],
      schedule_type = ''once'',
      status = Active\<rparr>"

text \<open>The four checks of one verification pass, under \<^verbatim>\<open>Promise.all\<close>: all four are
  issued, a rejection of one of the first three rejects the whole (with the message of
  the first of them in this order), and the pass verifies when some check is
  \<^verbatim>\<open>true\<close>. The fourth is \<^verbatim>\<open>false\<close> without a call when there was
  no initial count, and \<^verbatim>\<open>false\<close> when reading the new count rejects.\<close>

definition like_verifications :: "like_env \<Rightarrow> string option \<Rightarrow> nat \<Rightarrow> bool io" where
  "like_verifications env initialLikeCount n =
     andThen (modify (\<lambda>w. w\<lparr>page_calls := page_calls w @
                [IsVisible ''[data-testid=unlike]'', IsVisible ''button[aria-label*=Unlike]'',
                 IsVisible ''div[role=button][aria-label*=Unlike]'']
                @ (if truthy_str initialLikeCount
                   then [TextContent ''[data-testid=like] span''] else [])\<rparr>)) (\<lambda>u.
     andThen (await (le_unlike_testid env n)) (\<lambda>v1.
     andThen (await (le_unlike_button env n)) (\<lambda>v2.
     andThen (await (le_unlike_div env n)) (\<lambda>v3.
     andThen (if truthy_str initialLikeCount
              then await (catch_default False
                     (then_map (\<lambda>newCount. newCount \<noteq> initialLikeCount)
                        (le_newCount env n)))
              else ret False) (\<lambda>v4.
     ret (v1 \<or> v2 \<or> v3 \<or> v4))))))"

text \<open>
  \<^verbatim>\<open>while (retryCount < maxRetries && !likeVerified) { ...; if (!likeVerified &&
  retryCount < maxRetries - 1) { retryCount++; wait } else break }\<close> with
  \<^verbatim>\<open>maxRetries = 3\<close>; the first argument is \<^verbatim>\<open>maxRetries - retryCount\<close>. The result
  is \<^verbatim>\<open>likeVerified\<close>.
\<close>

fun verify_like :: "nat \<Rightarrow> like_env \<Rightarrow> string option \<Rightarrow> nat \<Rightarrow> bool io" where
  "verify_like 0 env initialLikeCount retryCount = ret False"
| "verify_like (Suc left) env initialLikeCount retryCount =
     andThen (like_verifications env initialLikeCount retryCount) (\<lambda>likeVerified.
     if \<not> likeVerified \<and> retryCount < 2 then
       andThen (page_do WaitForTimeout (le_verify_wait env retryCount)) (\<lambda>u.
       verify_like left env initialLikeCount (Suc retryCount))
     else ret likeVerified)"

text \<open>The inner \<^verbatim>\<open>try\<close> block of the like route.\<close>

definition like_protocol :: "like_env \<Rightarrow> nat \<Rightarrow> string \<Rightarrow> response io" where
  "like_protocol env tid tweetUrl =
     andThen (page_run [Goto tweetUrl, WaitForTimeout] (le_open_tweet env)) (\<lambda>u.
     andThen (page_get (IsVisible ''[data-testid=unlike]'')
                (catch_default False (le_isAlreadyLiked env))) (\<lambda>isAlreadyLiked.
     if isAlreadyLiked then
       andThen (insert_log tid LogSuccess ''Post was already liked'') (\<lambda>u.
       andThen (update_task_status tid Completed) (\<lambda>u.
       ret (json_result True ''Post was already liked'' (Some tid))))
     else
       andThen (page_do (WaitForSelector ''[data-testid=like]'') (le_likeButton env)) (\<lambda>u.
       andThen (page_get (TextContent ''[data-testid=like] span'')
                  (catch_default None (le_initialLikeCount env))) (\<lambda>initialLikeCount.
       andThen (page_run [Click ''[data-testid=like]'', WaitForTimeout] (le_click env)) (\<lambda>u.
       andThen (verify_like 3 env initialLikeCount 0) (\<lambda>likeVerified.
       if \<not> likeVerified
       then throw ''Failed to verify like action after multiple attempts'' else
       andThen (page_do WaitForTimeout (le_final_wait env)) (\<lambda>u.
       andThen (insert_log tid LogSuccess ''Tweet liked successfully'') (\<lambda>u.
       andThen (update_task_status tid Completed) (\<lambda>u.
       ret (json_result True ''Tweet liked successfully'' (Some tid)))))))))))"

definition POST_twitter_like_try :: "like_env \<Rightarrow> like_request \<Rightarrow> response io" where
  "POST_twitter_like_try env req =
     (if lq_session req = None then ret (json_error 401 ''Unauthorized'') else
      andThen (await (lq_json req)) (\<lambda>body.
      case likeTweetSchema (le_url env) (le_uuid env) body of
        None \<Rightarrow> throw zod_error
      | Some (tweetUrl, accountId) \<Rightarrow>
      andThen (select_single (\<lambda>a. acc_id a = accountId
                                 \<and> acc_user_id a = the (lq_session req))) (\<lambda>account.
      case account of
        None \<Rightarrow> ret (json_error 404 ''Account not found'')
      | Some a \<Rightarrow>
      andThen (insert_task (le_task_refused env)
                 (like_taskData (the (lq_session req)) accountId tweetUrl)) (\<lambda>inserted.
      case inserted of
        None \<Rightarrow> ret (json_error 500 ''Failed to create task'')
      | Some t \<Rightarrow>
      andThen (createStealthSetup (le_setup env) (acc_cookies a) (proxyConfig a) True)
        (\<lambda>setup.
      andThen (assign_locals setup) (\<lambda>u.
      andThen (if snd setup = None
               then fail_task (task_id t) ''Failed to create new page''
               else ret ()) (\<lambda>u.
      try_catch (like_protocol env (task_id t) tweetUrl)
        (fail_task (task_id t)))))))))"

definition POST_twitter_like :: "like_env \<Rightarrow> like_request \<Rightarrow> response io" where
  "POST_twitter_like env req =
     andThen declare_locals (\<lambda>u.
     try_finally
       (try_catch (POST_twitter_like_try env req)
          (\<lambda>error. ret (json_error 500 error)))
       close_local_context)"


section \<open>The twitter add-account route\<close>

record add_body =
  ab_username :: raw_field
  ab_email :: raw_field
  ab_password :: raw_field
  ab_proxy_ip :: raw_field
  ab_proxy_port :: raw_field
  ab_proxy_username :: raw_field
  ab_proxy_password :: raw_field
  ab_mail_password :: raw_field
  ab_mfa_code :: raw_field

text \<open>The port after the schema's \<^verbatim>\<open>transform\<close>: \<^verbatim>\<open>undefined\<close>, \<^verbatim>\<open>NaN\<close> or a
  number.\<close>

datatype parsed_port = PortUndefined | PortNaN | PortNumber (port_number: int)

definition truthy_port :: "parsed_port \<Rightarrow> bool" where
  "truthy_port v = (case v of PortNumber n \<Rightarrow> n \<noteq> 0 | _ \<Rightarrow> False)"

text \<open>The values the handler destructures from the parsed body; \<open>None\<close> is
  \<^verbatim>\<open>undefined\<close>. \<open>af_mfa_code\<close> is optional because the handler tests it for
  \<^verbatim>\<open>undefined\<close> too.\<close>

record add_fields =
  af_username :: string
  af_email :: string
  af_password :: string
  af_proxy_ip :: "string option"
  af_proxy_port :: parsed_port
  af_proxy_username :: "string option"
  af_proxy_password :: "string option"
  af_mail_password :: "string option"
  af_mfa_code :: "string option"

text \<open>
  \<^verbatim>\<open>addAccountSchema\<close>; \<^verbatim>\<open>.email()\<close> and \<^verbatim>\<open>parseInt\<close> are parameters (\<open>None\<close> is
  \<^verbatim>\<open>NaN\<close>). The port is \<^verbatim>\<open>val ? parseInt(val) : undefined\<close>, and the last field is
  \<^verbatim>\<open>z.string().refine((val) => val !== "")\<close>.
\<close>

definition addAccountSchema ::
  "(string \<Rightarrow> bool) \<Rightarrow> (string \<Rightarrow> int option) \<Rightarrow> add_body \<Rightarrow> add_fields option" where
  "addAccountSchema email parseInt body =
     Option.bind (string_min1 (ab_username body)) (\<lambda>username.
     Option.bind (string_where email (ab_email body)) (\<lambda>email.
     Option.bind (string_min1 (ab_password body)) (\<lambda>password.
     Option.bind (string_optional (ab_proxy_ip body)) (\<lambda>proxy_ip.
     Option.bind (string_optional (ab_proxy_port body)) (\<lambda>proxy_port.
     Option.bind (string_optional (ab_proxy_username body)) (\<lambda>proxy_username.
     Option.bind (string_optional (ab_proxy_password body)) (\<lambda>proxy_password.
     Option.bind (string_optional (ab_mail_password body)) (\<lambda>mail_password.
     Option.bind (string_where (\<lambda>val. val \<noteq> []) (ab_mfa_code body)) (\<lambda>mfa_code.
     Some \<lparr>af_username = username,
           af_email = email,
           af_password = password,
           af_proxy_ip = proxy_ip,
           af_proxy_port =
             (if truthy_str proxy_port then
                (case parseInt (the proxy_port) of
                   None \<Rightarrow> PortNaN
                 | Some n \<Rightarrow> PortNumber n)
              else PortUndefined),
           af_proxy_username = proxy_username,
           af_proxy_password = proxy_password,
           af_mail_password = mail_password,
           af_mfa_code = Some mfa_code\<rparr>)))))))))"

record add_request =
  aq_session :: "string option"
  aq_json :: "add_body outcome"

text \<open>The answers of the environment. The fields indexed by a number are asked in the
  login check loop, with \<^verbatim>\<open>retryCount\<close>.\<close>

record add_env =
  ae_email :: "string \<Rightarrow> bool"
  ae_parseInt :: "string \<Rightarrow> int option"
  ae_setup :: setup_env
  ae_open_login :: "(nat \<times> string) option"
  ae_enter_username :: "(nat \<times> string) option"
  ae_emailInputText :: "nat outcome"
  ae_phoneEmailTitle :: "nat outcome"
  ae_emailInput :: "bool outcome"
  ae_enter_email :: "(nat \<times> string) option"
  ae_enter_password :: "(nat \<times> string) option"
  ae_mfa_wait :: failure
  ae_mfaInput :: "nat outcome"
  ae_mfaTitle :: "nat outcome"
  ae_totp :: "string outcome"
  ae_enter_code :: "(nat \<times> string) option"
  ae_next_visible :: "bool outcome"
  ae_button_visible :: "bool outcome"
  ae_submit_code :: "(nat \<times> string) option"
  ae_still_input :: "bool outcome"
  ae_still_text :: "bool outcome"
  ae_again_next_visible :: "bool outcome"
  ae_again_button_visible :: "bool outcome"
  ae_again_click :: "(nat \<times> string) option"
  ae_url :: "nat \<Rightarrow> string"
  ae_homeTimeline :: "nat \<Rightarrow> bool outcome"
  ae_profileLink :: "nat \<Rightarrow> bool outcome"
  ae_tweetButton :: "nat \<Rightarrow> bool outcome"
  ae_sideNavHome :: "nat \<Rightarrow> bool outcome"
  ae_href :: "nat \<Rightarrow> string option outcome"
  ae_switcher_click :: "nat \<Rightarrow> unit outcome"
  ae_switcher_wait :: "nat \<Rightarrow> failure"
  ae_accountUsername :: "nat \<Rightarrow> string option outcome"
  ae_loginForm :: "nat \<Rightarrow> bool outcome"
  ae_confirmationPage :: "nat \<Rightarrow> bool outcome"
  ae_securityPage :: "nat \<Rightarrow> bool outcome"
  ae_goto_home :: "nat \<Rightarrow> (nat \<times> string) option"
  ae_loop_wait :: "nat \<Rightarrow> failure"
  ae_cookies :: "string outcome"
  ae_store_refused :: bool
  ae_new_id :: string

text \<open>
  \<^verbatim>\<open>proxy_ip && proxy_port ? {type: "http", server: proxy_ip,
  port: proxy_port.toString(), username: proxy_username || "",
  password: proxy_password || ""} : undefined\<close>
\<close>

definition add_proxyConfig :: "add_fields \<Rightarrow> js_object option" where
  "add_proxyConfig f =
     (if truthy_str (af_proxy_ip f) \<and> truthy_port (af_proxy_port f) then
        Some [(''type'', JsString ''http''),
              (''server'', JsString (the (af_proxy_ip f))),
              (''port'', JsNumberToString (port_number (af_proxy_port f))),
              (''username'', JsString (or_empty (af_proxy_username f))),
              (''password'', JsString (or_empty (af_proxy_password f)))]
      else None)"

text \<open>Step 2, inside its own \<^verbatim>\<open>try\<close>: the username, and the e-mail address when the
  page asks for it. The search for a visible e-mail input over three selectors is one
  answer of the environment.\<close>

definition username_step :: "add_env \<Rightarrow> add_fields \<Rightarrow> unit io" where
  "username_step env f =
     andThen (page_run [WaitForSelector ''input[autocomplete=username]'',
                        Fill ''input[autocomplete=username]'', TypeText (af_username f),
                        WaitForTimeout, Click ''Next'', WaitForTimeout]
                (ae_enter_username env)) (\<lambda>u.
     andThen (page_get (Count ''input[data-testid=ocfEnterTextTextInput]'')
                (ae_emailInputText env)) (\<lambda>emailInputText.
     andThen (page_get (Count ''text=Enter your phone number or email address'')
                (ae_phoneEmailTitle env)) (\<lambda>phoneEmailTitle.
     if emailInputText > 0 \<or> phoneEmailTitle > 0 then
       andThen (page_get (QueryAll ''emailInput'') (ae_emailInput env)) (\<lambda>emailInput.
       if emailInput then
         page_run [Click ''emailInput'', Fill ''emailInput'', TypeText (af_email f),
                   WaitForTimeout, Click ''Next'', WaitForTimeout] (ae_enter_email env)
       else ret ())
     else ret ())))"

text \<open>Steps 1 to 3 and the pause that opens step 4: everything before the page is
  probed for a verification code input.\<close>

definition login_steps :: "add_env \<Rightarrow> add_fields \<Rightarrow> unit io" where
  "login_steps env f =
     andThen (page_run [Goto ''https://x.com/i/flow/login'', WaitForTimeout]
                (ae_open_login env)) (\<lambda>u.
     andThen (try_catch (username_step env f)
                (\<lambda>error. throw (''Failed in username/email step: '' @ error))) (\<lambda>u.
     andThen (try_catch
                (page_run [WaitForSelector ''input[name=password]'',
                           Fill ''input[name=password]'', TypeText (af_password f),
                           WaitForTimeout, Click ''Log in'', WaitForTimeout]
                   (ae_enter_password env))
                (\<lambda>passwordError. throw (''Failed to enter password: '' @ passwordError))) (\<lambda>u.
     page_do WaitForTimeout (ae_mfa_wait env))))"

text \<open>The rest of the MFA branch, once a secret is at hand: generate the code, type it
  and press Next or Verify, once more if the page still asks.\<close>

definition enter_mfa_code :: "add_env \<Rightarrow> string \<Rightarrow> unit io" where
  "enter_mfa_code env mfa_code =
     andThen (await (ae_totp env)) (\<lambda>totpCode.
     andThen (page_run [Click ''input[data-testid=ocfEnterTextTextInput]'',
                        Fill ''input[data-testid=ocfEnterTextTextInput]'', TypeText totpCode,
                        WaitForTimeout] (ae_enter_code env)) (\<lambda>u.
     andThen (page_get (IsVisible ''Next'') (catch_default False (ae_next_visible env)))
       (\<lambda>nextVisible.
     andThen (page_get (IsVisible (if nextVisible then ''Next'' else ''Verify''))
                (catch_default False (ae_button_visible env))) (\<lambda>visible.
     if \<not> visible then throw ''Could not find MFA verify button'' else
     andThen (page_run [Click (if nextVisible then ''Next'' else ''Verify''), WaitForTimeout]
                (ae_submit_code env)) (\<lambda>u.
     andThen (page_get (IsVisible ''input[data-testid=ocfEnterTextTextInput]'')
                (catch_default False (ae_still_input env))) (\<lambda>stillOnVerificationPage.
     andThen (page_get (IsVisible ''text=Enter your verification code'')
                (catch_default False (ae_still_text env))) (\<lambda>verificationText.
     if stillOnVerificationPage \<or> verificationText then
       andThen (page_get (IsVisible ''Next'')
                  (catch_default False (ae_again_next_visible env))) (\<lambda>againNext.
       andThen (page_get (IsVisible (if againNext then ''Next'' else ''Verify''))
                  (catch_default False (ae_again_button_visible env))) (\<lambda>againVisible.
       if againVisible then
         page_run [Click (if againNext then ''Next'' else ''Verify''), WaitForTimeout]
           (ae_again_click env)
       else ret ()))
     else ret ())))))))"

text \<open>The username read off the page once the login is seen, inside its own
  \<^verbatim>\<open>try\<close>; \<open>remove1\<close> is \<^verbatim>\<open>replace\<close> of the first occurrence of one character.\<close>

definition extract_username :: "add_env \<Rightarrow> string \<Rightarrow> nat \<Rightarrow> string io" where
  "extract_username env username n =
     try_catch
       (andThen (page_get (GetAttribute ''href'') (catch_default None (ae_href env n))) (\<lambda>href.
        if truthy_str href then ret (remove1 CHR ''/'' (the href))
        else
          andThen (page_get (Click ''[data-testid=SideNav_AccountSwitcher_Button]'')
                     (catch_default () (ae_switcher_click env n))) (\<lambda>u.
          andThen (page_do WaitForTimeout (ae_switcher_wait env n)) (\<lambda>u.
          andThen (page_get (TextContent ''[data-testid=UserCell-contents] [dir=ltr]'')
                     (catch_default None (ae_accountUsername env n))) (\<lambda>accountUsername.
          if truthy_str accountUsername then ret (remove1 CHR ''@'' (the accountUsername))
          else ret username)))))
       (\<lambda>usernameError. ret username)"

text \<open>
  Step 5, \<^verbatim>\<open>while (!loggedIn && retryCount < maxRetries)\<close> with
  \<^verbatim>\<open>maxRetries = 3\<close>; the first argument is \<^verbatim>\<open>maxRetries - retryCount\<close>. The result is
  \<^verbatim>\<open>loggedIn\<close> and \<^verbatim>\<open>extractedUsername\<close>.
\<close>

fun check_logged_in :: "nat \<Rightarrow> add_env \<Rightarrow> string \<Rightarrow> nat \<Rightarrow> (bool \<times> string) io" where
  "check_logged_in 0 env username retryCount = ret (False, [])"
| "check_logged_in (Suc left) env username retryCount =
     andThen (page_get (IsVisible ''[data-testid=primaryColumn]'')
                (catch_default False (ae_homeTimeline env retryCount))) (\<lambda>homeTimeline.
     andThen (page_get (IsVisible ''[data-testid=AppTabBar_Profile_Link]'')
                (catch_default False (ae_profileLink env retryCount))) (\<lambda>profileLink.
     andThen (page_get (IsVisible ''[data-testid=tweetButtonInline]'')
                (catch_default False (ae_tweetButton env retryCount))) (\<lambda>tweetButton.
     andThen (page_get (IsVisible ''[data-testid=AppTabBar_Home_Link]'')
                (catch_default False (ae_sideNavHome env retryCount))) (\<lambda>sideNavHome.
     if homeTimeline \<or> profileLink \<or> tweetButton \<or> sideNavHome
        \<or> str_includes ''/home'' (ae_url env retryCount) then
       andThen (extract_username env username retryCount) (\<lambda>extractedUsername.
       ret (True, extractedUsername))
     else
       andThen (page_get (IsVisible ''input[autocomplete=username]'')
                  (catch_default False (ae_loginForm env retryCount))) (\<lambda>loginForm.
       andThen (page_get (IsVisible ''text=We sent you a confirmation code'')
                  (catch_default False (ae_confirmationPage env retryCount)))
         (\<lambda>confirmationPage.
       andThen (page_get (IsVisible ''text=Confirm your identity'')
                  (catch_default False (ae_securityPage env retryCount))) (\<lambda>securityPage.
       if \<not> loginForm \<and> (confirmationPage \<or> securityPage) then ret (True, username)
       else
         andThen (if loginForm
                  then page_run [Goto ''https://x.com/home'', WaitForTimeout]
                         (ae_goto_home env retryCount)
                  else ret ()) (\<lambda>u.
         andThen (page_do WaitForTimeout (ae_loop_wait env retryCount)) (\<lambda>u.
         check_logged_in left env username (Suc retryCount))))))))))"

text \<open>
  The row written for the account, and the two ways of writing it:
  \<^verbatim>\<open>update(...).eq('id', existingAccount.id)\<close> and \<^verbatim>\<open>insert([...])\<close>. The values
  travel as JSON, which drops a key whose value is \<^verbatim>\<open>undefined\<close> and writes
  \<^verbatim>\<open>NaN\<close> as \<^verbatim>\<open>null\<close>: an update leaves the column of a dropped key as it is, and
  an insert gives it its default, \<^verbatim>\<open>null\<close>.
\<close>

definition written :: "'a option \<Rightarrow> 'a option \<Rightarrow> 'a option" where
  "written v stored = (case v of None \<Rightarrow> stored | Some x \<Rightarrow> Some x)"

definition written_port :: "parsed_port \<Rightarrow> int option \<Rightarrow> int option" where
  "written_port v stored =
     (case v of PortUndefined \<Rightarrow> stored | PortNaN \<Rightarrow> None | PortNumber n \<Rightarrow> Some n)"

definition updated_account :: "add_fields \<Rightarrow> string \<Rightarrow> string \<Rightarrow> bool \<Rightarrow> account \<Rightarrow> account" where
  "updated_account f extractedUsername cookiesString loggedIn a =
     a\<lparr>acc_username := (if extractedUsername \<noteq> [] then extractedUsername else af_username f),
       acc_cookies := Some cookiesString,
       acc_status := (if loggedIn then AccActive else AccPending),
       proxy_ip := written (af_proxy_ip f) (proxy_ip a),
       proxy_port := written_port (af_proxy_port f) (proxy_port a),
       proxy_username := written (af_proxy_username f) (proxy_username a),
       proxy_password := written (af_proxy_password f) (proxy_password a),
       acc_mail_password := written (af_mail_password f) (acc_mail_password a),
       acc_mfa_code := written (af_mfa_code f) (acc_mfa_code a)\<rparr>"

definition new_account ::
  "string \<Rightarrow> string \<Rightarrow> add_fields \<Rightarrow> string \<Rightarrow> string \<Rightarrow> bool \<Rightarrow> account" where
  "new_account new_id uid f extractedUsername cookiesString loggedIn =
     \<lparr>acc_id = new_id,
      acc_user_id = uid,
      acc_platform = ''twitter'',
      acc_email = af_email f,
      acc_username = (if extractedUsername \<noteq> [] then extractedUsername else af_username f),
      acc_password = Some (af_password f),
      acc_type = ''manual'',
      acc_cookies = Some cookiesString,
      acc_status = (if loggedIn then AccActive else AccPending),
      proxy_ip = af_proxy_ip f,
      proxy_port = written_port (af_proxy_port f) None,
      proxy_username = af_proxy_username f,
      proxy_password = af_proxy_password f,
      acc_mail_password = af_mail_password f,
      acc_mfa_code = af_mfa_code f,
      proxy_last_used = False\<rparr>"

definition is_pending :: "account option \<Rightarrow> bool" where
  "is_pending existing = (case existing of Some a \<Rightarrow> acc_status a = AccPending | None \<Rightarrow> False)"

definition store_account ::
  "add_env \<Rightarrow> string \<Rightarrow> add_fields \<Rightarrow> account option \<Rightarrow> bool \<Rightarrow> string \<Rightarrow> string \<Rightarrow>
   response io" where
  "store_account env uid f existingAccount loggedIn extractedUsername cookiesString =
     try_catch
       (if ae_store_refused env then throw ''Failed to store account in database''
        else
          andThen (if is_pending existingAccount
                   then update_accounts (\<lambda>a. acc_id a = acc_id (the existingAccount))
                          (updated_account f extractedUsername cookiesString loggedIn)
                   else modify (\<lambda>w. w\<lparr>social_accounts := social_accounts w @
                          [new_account (ae_new_id env) uid f extractedUsername cookiesString
                             loggedIn]\<rparr>)) (\<lambda>u.
          ret (json_result True
                 (if loggedIn then ''Account added successfully''
                  else ''Account added with pending status - may require manual verification'')
                 None)))
       (\<lambda>dbError. throw (''Failed to store account in database: '' @ dbError))"

text \<open>\<^verbatim>\<open>await context.close()\<close> on the handler's variable, which is not tested here.\<close>

definition close_context_variable :: "unit io" where
  "close_context_variable w =
     (case local_context w of
        Some c \<Rightarrow> context_close c w
      | None \<Rightarrow> (Throw ''TypeError: Cannot read properties of null'', w))"

definition mfa_required_response :: response where
  "mfa_required_response =
     \<lparr>http_status = 200, r_success = Some False,
      r_message = Some ''MFA verification required. Please provide your TOTP secret key.'',
      r_error = None, r_taskId = None, r_requiresMfa = Some True\<rparr>"

text \<open>Step 4 and what follows it in the inner \<^verbatim>\<open>try\<close> block: the probe for the
  verification code page, the MFA branch, the login check, the cookie jar and the
  account row.\<close>

definition mfa_and_save ::
  "add_env \<Rightarrow> string \<Rightarrow> add_fields \<Rightarrow> account option \<Rightarrow> response io" where
  "mfa_and_save env uid f existingAccount =
     andThen (page_get (Count ''input[data-testid=ocfEnterTextTextInput]'')
                (ae_mfaInput env)) (\<lambda>mfaInput.
     andThen (page_get (Count ''text=Enter your verification code'') (ae_mfaTitle env))
       (\<lambda>mfaTitle.
     if (mfaInput > 0 \<or> mfaTitle > 0)
        \<and> (\<not> truthy_str (af_mfa_code f) \<or> af_mfa_code f = Some []) then
       andThen close_context_variable (\<lambda>u.
       ret mfa_required_response)
     else
       andThen (if mfaInput > 0 \<or> mfaTitle > 0
                then enter_mfa_code env (the (af_mfa_code f))
                else ret ()) (\<lambda>u.
       andThen (check_logged_in 3 env (af_username f) 0) (\<lambda>checked.
       andThen (page_get ReadCookies (ae_cookies env)) (\<lambda>cookiesString.
       store_account env uid f existingAccount (fst checked) (snd checked) cookiesString)))))"

definition login_driver ::
  "add_env \<Rightarrow> string \<Rightarrow> add_fields \<Rightarrow> account option \<Rightarrow> response io" where
  "login_driver env uid f existingAccount =
     andThen (login_steps env f) (\<lambda>u. mfa_and_save env uid f existingAccount)"

definition is_active :: "account option \<Rightarrow> bool" where
  "is_active existing = (case existing of Some a \<Rightarrow> acc_status a = AccActive | None \<Rightarrow> False)"

definition POST_twitter_add_account_try :: "add_env \<Rightarrow> add_request \<Rightarrow> response io" where
  "POST_twitter_add_account_try env req =
     (if aq_session req = None then ret (json_error 401 ''Unauthorized'') else
      andThen (await (aq_json req)) (\<lambda>body.
      case addAccountSchema (ae_email env) (ae_parseInt env) body of
        None \<Rightarrow> throw zod_error
      | Some f \<Rightarrow>
      andThen (createStealthSetup (ae_setup env) None (add_proxyConfig f) False) (\<lambda>setup.
      andThen (assign_locals setup) (\<lambda>u.
      andThen (select_single (\<lambda>a. acc_email a = af_email f \<and> acc_platform a = ''twitter''))
        (\<lambda>existingAccount.
      if is_active existingAccount
      then ret (json_result False ''Twitter account already exists and is active'' None) else
      if snd setup = None then throw ''Failed to create new page'' else
      login_driver env (the (aq_session req)) f existingAccount)))))"

definition POST_twitter_add_account :: "add_env \<Rightarrow> add_request \<Rightarrow> response io" where
  "POST_twitter_add_account env req =
     andThen declare_locals (\<lambda>u.
     try_finally
       (try_catch (POST_twitter_add_account_try env req)
          (\<lambda>error. ret (json_error 500 error)))
       close_local_context)"


section \<open>Predicates and example inputs used in the statements\<close>

text \<open>Every call of the session set-up resolves (cookie replay apart, whose failure is
  caught).\<close>

definition setup_returns :: "setup_env \<Rightarrow> bool" where
  "setup_returns env =
     (launch_error env = None \<and> newContext_error env = None
      \<and> context_initScript_error env = None \<and> newPage_error env = None
      \<and> page_initScript_error env = None)"

text \<open>The cookies a new Context ends up with.\<close>

definition restored_cookies :: "setup_env \<Rightarrow> string option \<Rightarrow> cookie list" where
  "restored_cookies env cookies =
     (if truthy_str cookies \<and> addCookies_error env = None then
        (case parseCookies (json_parse env) (the cookies) of
           JCookies cs \<Rightarrow> cs
         | JOther \<Rightarrow> [])
      else [])"

text \<open>Exactly one stored account satisfies the filter of a \<^verbatim>\<open>.single()\<close> query.\<close>

definition single_row :: "(account \<Rightarrow> bool) \<Rightarrow> world \<Rightarrow> bool" where
  "single_row P w = (length (filter P (social_accounts w)) = 1)"

text \<open>Every pass of the verification loop of the like route sees no sign of the like:
  the three unlike controls are not visible, the count (when there was one at first) did
  not change or cannot be read, and the pauses between the passes resolve.\<close>

definition never_verified :: "like_env \<Rightarrow> bool" where
  "never_verified env =
     (list_all (\<lambda>n. le_unlike_testid env n = Resolves False
                  \<and> le_unlike_button env n = Resolves False
                  \<and> le_unlike_div env n = Resolves False
                  \<and> catch_default False
                       (then_map (\<lambda>newCount. newCount \<noteq>
                            (case catch_default None (le_initialLikeCount env) of
                               Resolves v \<Rightarrow> v | Rejects m \<Rightarrow> None))
                          (le_newCount env n)) = Resolves False)
        [0, Suc 0, Suc (Suc 0)]
      \<and> le_verify_wait env 0 = None \<and> le_verify_wait env (Suc 0) = None)"

text \<open>What a failed one-shot request leaves behind: the answer 500 with the message of
  the error, the new task row set to \<^verbatim>\<open>failed\<close>, and one \<^verbatim>\<open>failed\<close> log entry with
  the same message.\<close>

definition failed_outcome ::
  "response completion \<times> world \<Rightarrow> world \<Rightarrow> task \<Rightarrow> string \<Rightarrow> bool" where
  "failed_outcome res w row e =
     (fst res = Normal (json_error 500 e)
      \<and> tasks (snd res) = tasks w @ [row\<lparr>status := Failed\<rparr>]
      \<and> task_logs (snd res) = task_logs w @
           [\<lparr>log_task_id = task_id row, log_result = LogFailed, log_message = e\<rparr>])"

text \<open>A handler that never answers with \<^verbatim>\<open>requiresMfa: true\<close>.\<close>

definition never_asks_mfa :: "response io \<Rightarrow> bool" where
  "never_asks_mfa m = (\<forall>w. case fst (m w) of Normal r \<Rightarrow> r_requiresMfa r \<noteq> Some True | _ \<Rightarrow> True)"

definition quiet_setup :: setup_env where
  "quiet_setup = \<lparr>json_parse = parse_json_cookies,
     launch_error = None, newContext_error = None,
     addCookies_error = None, context_initScript_error = None, newPage_error = None,
     page_initScript_error = None\<rparr>"

definition alice :: account where
  "alice = \<lparr>acc_id = ''123e4567-e89b-12d3-a456-426614174000'', acc_user_id = ''user-1'',
     acc_platform = ''twitter'', acc_email = ''alice@example.com'', acc_username = ''alice'',
     acc_password = None, acc_type = ''manual'',
     acc_cookies = Some ''auth_token=abc; ct0=def'', acc_status = AccActive,
     proxy_ip = None, proxy_port = None, proxy_username = None, proxy_password = None,
     acc_mail_password = None, acc_mfa_code = None, proxy_last_used = False\<rparr>"

definition fiona :: account where
  "fiona = \<lparr>acc_id = ''9b2d1c3e-5f6a-4b7c-8d9e-0a1b2c3d4e5f'', acc_user_id = ''user-1'',
     acc_platform = ''facebook'', acc_email = ''fiona@example.com'', acc_username = ''fiona.page'',
     acc_password = None, acc_type = ''manual'',
     acc_cookies = Some ''c_user=100; xs=abc'', acc_status = AccActive,
     proxy_ip = None, proxy_port = None, proxy_username = None, proxy_password = None,
     acc_mail_password = None, acc_mfa_code = None, proxy_last_used = False\<rparr>"

definition world0 :: world where
  "world0 = \<lparr>social_accounts = [alice, fiona], tasks = [], task_logs = [], globalBrowser = None,
     browsers = [], browser_closes = [], contexts = [], context_closes = [],
     page_closes = [], page_calls = [], local_context = None, local_page = None\<rparr>"

definition follow_env0 :: follow_env where
  "follow_env0 = \<lparr>fe_uuid = (\<lambda>s. length s = 36), fe_task_refused = False,
     fe_setup = quiet_setup, fe_open_profile = None, fe_state = Resolves (True, False),
     fe_race = (\<lambda>i. None), fe_visible = (\<lambda>i k. Resolves True), fe_retry = (\<lambda>i. None),
     fe_click = None, fe_confirm = None, fe_settle = None\<rparr>"

definition follow_req0 :: follow_request where
  "follow_req0 = \<lparr>fq_session = Some ''user-1'',
     fq_json = Resolves \<lparr>fb_username = Str ''rihanna'',
        fb_accountId = Str ''123e4567-e89b-12d3-a456-426614174000'', fb_action = Absent\<rparr>\<rparr>"

definition after_two_follows :: world where
  "after_two_follows =
     snd (POST_twitter_follow 5 follow_env0 follow_req0
       (snd (POST_twitter_follow 5 follow_env0 follow_req0 world0)))"

definition post_env0 :: post_env where
  "post_env0 = \<lparr>pe_setup = quiet_setup, pe_navigate = None, pe_postButton = Resolves True,
     pe_open_dialog = None, pe_textArea = Resolves True, pe_typing = None,
     pe_typedContent = Resolves (Some ''hello''), pe_pause = None, pe_clicked = Resolves True,
     pe_settle = None, pe_postContent = Resolves True\<rparr>"

definition post_env_timeout :: post_env where
  "post_env_timeout = post_env0\<lparr>pe_postButton :=
     Rejects ''page.waitForSelector: Timeout 10000ms exceeded.''\<rparr>"

definition post_req0 :: post_request where
  "post_req0 = \<lparr>pr_session = Some ''user-1'', pr_formData = None,
     pr_accountId = Some ''9b2d1c3e-5f6a-4b7c-8d9e-0a1b2c3d4e5f'',
     pr_content = Some ''hello'', pr_scheduleType = Some ''now'', pr_scheduleTime = None,
     pr_media = None, pr_mediaType = None, pr_media_write = Resolves ''uploads/m.png'',
     pr_task_refused = False\<rparr>"

definition shared_browser_world :: world where
  "shared_browser_world = snd (initGlobalBrowser quiet_setup world0)"

definition like_env0 :: like_env where
  "like_env0 = \<lparr>le_url = (\<lambda>s. starts_with ''https://'' s), le_uuid = (\<lambda>s. length s = 36),
     le_task_refused = False, le_setup = quiet_setup, le_open_tweet = None,
     le_isAlreadyLiked = Resolves False, le_likeButton = None,
     le_initialLikeCount = Resolves (Some ''12''), le_click = None,
     le_unlike_testid = (\<lambda>n. Resolves False), le_unlike_button = (\<lambda>n. Resolves False),
     le_unlike_div = (\<lambda>n. Resolves False), le_newCount = (\<lambda>n. Resolves (Some ''12'')),
     le_verify_wait = (\<lambda>n. None), le_final_wait = None\<rparr>"

definition like_req0 :: like_request where
  "like_req0 = \<lparr>lq_session = Some ''user-1'',
     lq_json = Resolves \<lparr>lb_tweetUrl = Str ''https://x.com/u/status/123'',
        lb_accountId = Str ''123e4567-e89b-12d3-a456-426614174000''\<rparr>\<rparr>"



text \<open>
  \<^verbatim>\<open>parseInt(text)\<close> of the language standard, for the example environment: leading
  white space is skipped, a sign is read, \<^verbatim>\<open>0x\<close> or \<^verbatim>\<open>0X\<close> selects base 16, and the
  longest run of digits that follows is the number; there is no number (\<^verbatim>\<open>NaN\<close>) when
  that run is empty. The number is the integer itself, which is what the runtime gives
  below \<open>2 ^ 53\<close>.
\<close>

definition js_parseInt :: "string \<Rightarrow> int option" where
  "js_parseInt s =
     (let t = dropWhile is_js_space s;
          negative = starts_with ''-'' t;
          u = (if starts_with ''-'' t \<or> starts_with ''+'' t then drop 1 t else t);
          hex = (starts_with ''0x'' u \<or> starts_with ''0X'' u);
          v = (if hex then drop 2 u else u);
          digit = (\<lambda>c. if hex \<or> is_digit c then hex_digit c else None);
          z = takeWhile (\<lambda>c. digit c \<noteq> None) v;
          n = foldl (\<lambda>a c. a * (if hex then 16 else 10) + the (digit c)) 0 z
      in if z = [] then None else Some (if negative then - int n else int n))"

definition add_env0 :: add_env where
  "add_env0 = \<lparr>ae_email = (\<lambda>s. CHR ''@'' \<in> set s), ae_parseInt = js_parseInt,
     ae_setup = quiet_setup, ae_open_login = None, ae_enter_username = None,
     ae_emailInputText = Resolves 0, ae_phoneEmailTitle = Resolves 0,
     ae_emailInput = Resolves False, ae_enter_email = None, ae_enter_password = None,
     ae_mfa_wait = None, ae_mfaInput = Resolves 1, ae_mfaTitle = Resolves 1,
     ae_totp = Resolves ''123456'', ae_enter_code = None, ae_next_visible = Resolves True,
     ae_button_visible = Resolves True, ae_submit_code = None,
     ae_still_input = Resolves False, ae_still_text = Resolves False,
     ae_again_next_visible = Resolves False, ae_again_button_visible = Resolves False,
     ae_again_click = None, ae_url = (\<lambda>n. ''https://x.com/home''),
     ae_homeTimeline = (\<lambda>n. Resolves True), ae_profileLink = (\<lambda>n. Resolves True),
     ae_tweetButton = (\<lambda>n. Resolves True), ae_sideNavHome = (\<lambda>n. Resolves True),
     ae_href = (\<lambda>n. Resolves (Some ''/bob'')), ae_switcher_click = (\<lambda>n. Resolves ()),
     ae_switcher_wait = (\<lambda>n. None), ae_accountUsername = (\<lambda>n. Resolves None),
     ae_loginForm = (\<lambda>n. Resolves False), ae_confirmationPage = (\<lambda>n. Resolves False),
     ae_securityPage = (\<lambda>n. Resolves False), ae_goto_home = (\<lambda>n. None),
     ae_loop_wait = (\<lambda>n. None), ae_cookies = Resolves ''[]'', ae_store_refused = False,
     ae_new_id = ''5c0f7a52-6d1e-4f0b-9a3c-2b1d4e6f8a90''\<rparr>"

definition add_body0 :: add_body where
  "add_body0 = \<lparr>ab_username = Str ''bob'', ab_email = Str ''bob@example.com'',
     ab_password = Str ''hunter2'', ab_proxy_ip = Absent, ab_proxy_port = Absent,
     ab_proxy_username = Absent, ab_proxy_password = Absent, ab_mail_password = Absent,
     ab_mfa_code = Str ''JBSWY3DPEHPK3PXP''\<rparr>"

definition add_req0 :: add_request where
  "add_req0 = \<lparr>aq_session = Some ''user-1'', aq_json = Resolves add_body0\<rparr>"


text \<open>A session set-up in which the Browser is launched and the Context is opened, and
  \<^verbatim>\<open>context.newPage()\<close> then rejects; and the environments of the create-post and
  like routes with that set-up.\<close>

definition setup_without_page :: setup_env where
  "setup_without_page = quiet_setup\<lparr>newPage_error :=
     Some ''browserContext.newPage: Target page, context or browser has been closed''\<rparr>"

definition post_env_without_page :: post_env where
  "post_env_without_page = post_env0\<lparr>pe_setup := setup_without_page\<rparr>"

definition like_env_without_page :: like_env where
  "like_env_without_page = like_env0\<lparr>le_setup := setup_without_page\<rparr>"

text \<open>An account with the proxy 10.0.0.5:8080 and the credentials u and p, and one that
  differs from it in every column but the four proxy columns.\<close>

definition proxied :: account where
  "proxied = alice\<lparr>proxy_ip := Some ''10.0.0.5'', proxy_port := Some 8080,
     proxy_username := Some ''u'', proxy_password := Some ''p''\<rparr>"

definition proxied_other :: account where
  "proxied_other = fiona\<lparr>acc_password := Some ''pw'', acc_type := ''api'',
     acc_status := AccPending, acc_mail_password := Some ''mail'',
     acc_mfa_code := Some ''JBSWY3DPEHPK3PXP'', proxy_last_used := True,
     proxy_ip := Some ''10.0.0.5'', proxy_port := Some 8080,
     proxy_username := Some ''u'', proxy_password := Some ''p''\<rparr>"


section \<open>Laws of the combinators and lemmas on the store and the session set-up\<close>


lemma andThen_ret [simp]: "andThen (ret x) f = f x"
  by (rule ext) (simp add: andThen_def ret_def)

lemma andThen_throw [simp]: "andThen (throw e) f = throw e"
  by (rule ext) (simp add: andThen_def throw_def)

lemma try_catch_ret [simp]: "try_catch (ret x) h = ret x"
  by (rule ext) (simp add: try_catch_def ret_def)

lemma try_catch_throw [simp]: "try_catch (throw e) h = h e"
  by (rule ext) (simp add: try_catch_def throw_def)

lemma await_simps [simp]:
  "await (Resolves x) = ret x" "await (Rejects m) = throw m"
  "await_unit None = ret ()" "await_unit (Some m) = throw m"
  by (rule ext, simp add: await_def await_unit_def ret_def throw_def)+

lemma catch_default_simps [simp]:
  "catch_default d (Resolves x) = Resolves x" "catch_default d (Rejects m) = Resolves d"
  by (simp_all add: catch_default_def)


lemma andThen_apply:
  "andThen m f w =
     (case fst (m w) of
        Normal x \<Rightarrow> f x (snd (m w))
      | Throw e \<Rightarrow> (Throw e, snd (m w))
      | OutOfFuel \<Rightarrow> (OutOfFuel, snd (m w)))"
  by (cases "m w") (simp add: andThen_def split: completion.splits)

lemma try_catch_apply:
  "try_catch m h w =
     (case fst (m w) of
        Normal x \<Rightarrow> (Normal x, snd (m w))
      | Throw e \<Rightarrow> h e (snd (m w))
      | OutOfFuel \<Rightarrow> (OutOfFuel, snd (m w)))"
  by (cases "m w") (simp add: try_catch_def split: completion.splits)

lemma parse_json_cookies_examples [simp]:
  "parse_json_cookies ''auth_token=abc; ct0=def'' = None"
  "parse_json_cookies ''c_user=100; xs=abc'' = None"
  "parse_json_cookies ''[]'' = Some (JCookies [])"
  "parse_json_cookies ''123'' = Some JOther"
  by code_simp+

lemma cookie_of_piece_fixed:
  "ck_domain (cookie_of_piece p) = ''.facebook.com'' \<and> ck_path (cookie_of_piece p) = ''/''
   \<and> ck_secure (cookie_of_piece p) \<and> ck_httpOnly (cookie_of_piece p)
   \<and> ck_sameSite (cookie_of_piece p) = ''Lax''"
  by (simp add: cookie_of_piece_def Let_def)

lemma restore_cookies_eq:
  "c < length (contexts w) \<Longrightarrow>
   restore_cookies env c cookies w =
     (Normal (), w\<lparr>contexts := (contexts w)
        [c := (contexts w ! c)\<lparr>ctx_cookies := ctx_cookies (contexts w ! c) @ restored_cookies env cookies\<rparr>]\<rparr>)"
  by (cases "parseCookies (json_parse env) (the cookies)"; cases "addCookies_error env")
     (simp_all add: restore_cookies_def restored_cookies_def try_catch_def context_addCookies_def ret_def)

lemma createStealthSetup_returns:
  "setup_returns env \<Longrightarrow>
   createStealthSetup env cookies proxy headless w =
     (Normal (length (contexts w), Some (length (contexts w))),
      w\<lparr>browsers := browsers w @ [headless],
        contexts := contexts w @
          [\<lparr>ctx_browser = length (browsers w), ctx_proxy = proxy,
            ctx_cookies = restored_cookies env cookies\<rparr>]\<rparr>)"
  by (simp add: setup_returns_def createStealthSetup_def andThen_def chromium_launch_def
      browser_newContext_def restore_cookies_eq ret_def)

lemma createStealthSetup_throws:
  "\<not> setup_returns env \<Longrightarrow>
   \<exists>m w'. createStealthSetup env cookies proxy headless w = (Throw m, w')
     \<and> globalBrowser w' = globalBrowser w \<and> browser_closes w' = browser_closes w
     \<and> context_closes w' = context_closes w \<and> page_closes w' = page_closes w
     \<and> local_context w' = local_context w \<and> local_page w' = local_page w
     \<and> tasks w' = tasks w \<and> task_logs w' = task_logs w
     \<and> social_accounts w' = social_accounts w"
  by (cases "launch_error env"; cases "newContext_error env";
      cases "context_initScript_error env"; cases "newPage_error env";
      cases "page_initScript_error env")
     (simp_all add: setup_returns_def createStealthSetup_def andThen_def chromium_launch_def
        browser_newContext_def restore_cookies_eq throw_def ret_def)

lemma createStealthSetup_normal:
  "createStealthSetup env cookies proxy headless w = (Normal x, w') \<Longrightarrow> setup_returns env"
  using createStealthSetup_throws [of env cookies proxy headless w] by auto

lemma createStealthContext_global:
  "createStealthContext env cookies proxy w = (Normal c, w') \<Longrightarrow>
   globalBrowser w' = Some (ctx_browser (contexts w' ! c))"
  by (cases "globalBrowser w"; cases "launch_error env"; cases "newContext_error env";
      cases "context_initScript_error env")
     (auto simp add: createStealthContext_def initGlobalBrowser_def andThen_def
        chromium_launch_def browser_newContext_def restore_cookies_eq throw_def ret_def
        modify_def nth_append)


lemma select_single_found:
  "single_row P w \<Longrightarrow> \<exists>a. select_single P w = (Normal (Some a), w) \<and> P a"
proof -
  assume s: "single_row P w"
  then obtain a where f: "filter P (social_accounts w) = [a]"
    unfolding single_row_def by (cases "filter P (social_accounts w)") auto
  then have "a \<in> set (filter P (social_accounts w))" by simp
  then have "P a" by simp
  then show ?thesis using f by (auto simp: select_single_def)
qed

lemmas io_defs = ret_def throw_def andThen_def try_catch_def try_finally_def modify_def
  await_def await_unit_def catch_default_def then_map_def page_get_def page_do_def

lemmas store_defs = select_single_def insert_task_def next_task_id_def insert_log_def
  update_task_status_def update_accounts_def fail_task_def Let_def

lemmas session_defs = createStealthSetup_def chromium_launch_def browser_newContext_def
  restore_cookies_def context_addCookies_def parseCookies_def truthy_str_def truthy_num_def
  context_close_def page_close_def browser_close_def cleanup_def initGlobalBrowser_def
  declare_locals_def assign_locals_def close_local_context_def close_local_page_def
  cookie_of_piece_def js_trim_def is_js_space_def

lemmas fixture_defs = world0_def alice_def fiona_def quiet_setup_def follow_env0_def
  follow_req0_def post_env0_def post_env_timeout_def post_req0_def like_env0_def like_req0_def
  shared_browser_world_def after_two_follows_def

lemmas follow_defs = POST_twitter_follow_def POST_twitter_follow_try_def followUserSchema_def
  string_min1_def string_where_def action_enum_def follow_taskData_def follow_protocol_def
  proxyConfig_def action_name_def json_result_def json_error_def zod_error_def

lemmas post_defs = POST_create_post_def POST_create_post_try_def post_taskData_def
  executePost_def executePost_try_def executePost_finally_def post_protocol_def
  proxyConfig_post_def content_of_def json_error_def

lemmas like_defs = POST_twitter_like_def POST_twitter_like_try_def likeTweetSchema_def
  string_where_def like_taskData_def like_protocol_def like_verifications_def
  proxyConfig_def json_result_def json_error_def zod_error_def



lemma single_row_locals [simp]:
  "single_row P (w\<lparr>local_context := a, local_page := b\<rparr>) = single_row P w"
  by (simp add: single_row_def)

lemma fold_max_ge: "a \<le> fold max xs (a::nat)"
proof (induction xs arbitrary: a)
  case Nil
  show ?case by simp
next
  case (Cons x xs)
  have "max x a \<le> fold max xs (max x a)" by (rule Cons.IH)
  then show ?case by simp
qed

lemma fold_max_mem: "x \<in> set xs \<Longrightarrow> x \<le> fold max xs (a::nat)"
proof (induction xs arbitrary: a)
  case Nil
  then show ?case by simp
next
  case (Cons y ys)
  show ?case
  proof (cases "x = y")
    case True
    have "max y a \<le> fold max ys (max y a)" by (rule fold_max_ge)
    then show ?thesis using True by simp
  next
    case False
    then have "x \<in> set ys" using Cons.prems by simp
    then show ?thesis using Cons.IH by simp
  qed
qed

lemma next_task_id_fresh: "t \<in> set ts \<Longrightarrow> task_id t \<noteq> next_task_id ts"
proof -
  assume "t \<in> set ts"
  then have "task_id t \<in> set (map task_id ts)" by simp
  then have "task_id t \<le> fold max (map task_id ts) 0" by (rule fold_max_mem)
  then show ?thesis by (simp add: next_task_id_def)
qed

lemma set_status_fresh:
  "map (\<lambda>t. if task_id t = next_task_id ts then t\<lparr>status := s\<rparr> else t) ts = ts"
  by (rule map_idI) (simp add: next_task_id_fresh)

lemma never_asks_mfa_ret: "r_requiresMfa r \<noteq> Some True \<Longrightarrow> never_asks_mfa (ret r)"
  by (simp add: never_asks_mfa_def ret_def)

lemma never_asks_mfa_throw: "never_asks_mfa (throw e)"
  by (simp add: never_asks_mfa_def throw_def)

lemma never_asks_mfa_andThen:
  assumes "\<And>x. never_asks_mfa (f x)"
  shows "never_asks_mfa (andThen m f)"
  unfolding never_asks_mfa_def
proof (intro allI)
  fix w
  show "case fst (andThen m f w) of Normal r \<Rightarrow> r_requiresMfa r \<noteq> Some True | _ \<Rightarrow> True"
  proof (cases "fst (m w)")
    case (Normal x)
    then have "andThen m f w = f x (snd (m w))" by (simp add: andThen_apply)
    then show ?thesis using assms [of x] by (simp add: never_asks_mfa_def)
  next
    case (Throw e)
    then show ?thesis by (simp add: andThen_apply)
  next
    case OutOfFuel
    then show ?thesis by (simp add: andThen_apply)
  qed
qed

lemma never_asks_mfa_try_catch:
  assumes "never_asks_mfa m" and "\<And>e. never_asks_mfa (h e)"
  shows "never_asks_mfa (try_catch m h)"
  unfolding never_asks_mfa_def
proof (intro allI)
  fix w
  show "case fst (try_catch m h w) of Normal r \<Rightarrow> r_requiresMfa r \<noteq> Some True | _ \<Rightarrow> True"
  proof (cases "fst (m w)")
    case (Normal x)
    from assms(1) have "case fst (m w) of Normal r \<Rightarrow> r_requiresMfa r \<noteq> Some True | _ \<Rightarrow> True"
      unfolding never_asks_mfa_def by (rule spec)
    then show ?thesis using Normal by (simp add: try_catch_apply)
  next
    case (Throw e)
    then have "try_catch m h w = h e (snd (m w))" by (simp add: try_catch_apply)
    then show ?thesis using assms(2) [of e] by (simp add: never_asks_mfa_def)
  next
    case OutOfFuel
    then show ?thesis by (simp add: try_catch_apply)
  qed
qed

lemma never_asks_mfa_try_finally:
  assumes "never_asks_mfa m"
  shows "never_asks_mfa (try_finally m fin)"
  unfolding never_asks_mfa_def
proof (intro allI)
  fix w
  from assms have m: "case fst (m w) of Normal r \<Rightarrow> r_requiresMfa r \<noteq> Some True | _ \<Rightarrow> True"
    by (simp add: never_asks_mfa_def)
  show "case fst (try_finally m fin w) of Normal r \<Rightarrow> r_requiresMfa r \<noteq> Some True | _ \<Rightarrow> True"
    using m
    by (cases "m w"; cases "fst (m w)"; cases "fin (snd (m w))"; cases "fst (fin (snd (m w)))")
       (auto simp add: try_finally_def split: completion.splits)
qed

lemma never_asks_mfa_if:
  "(c \<Longrightarrow> never_asks_mfa a) \<Longrightarrow> (\<not> c \<Longrightarrow> never_asks_mfa b) \<Longrightarrow>
   never_asks_mfa (if c then a else b)"
  by simp

lemma never_asks_mfa_store:
  "never_asks_mfa (store_account env uid f existing loggedIn extracted cookiesString)"
  unfolding store_account_def
  by (intro never_asks_mfa_try_catch never_asks_mfa_if never_asks_mfa_andThen
      never_asks_mfa_throw never_asks_mfa_ret) (simp add: json_result_def)

lemma never_asks_mfa_driver:
  assumes "truthy_str (af_mfa_code f)"
  shows "never_asks_mfa (login_driver env uid f existing)"
proof -
  have c: "af_mfa_code f \<noteq> Some []"
    using assms by (auto simp: truthy_str_def)
  show ?thesis
    unfolding login_driver_def mfa_and_save_def
    by (intro never_asks_mfa_andThen)
       (simp add: assms c never_asks_mfa_andThen never_asks_mfa_store)
qed

lemma addAccountSchema_mfa:
  "addAccountSchema email pint body = Some f \<Longrightarrow>
   \<exists>code. ab_mfa_code body = Str code \<and> code \<noteq> [] \<and> af_mfa_code f = Some code"
  by (cases "ab_mfa_code body")
     (auto simp add: addAccountSchema_def string_where_def Option.bind_eq_Some_conv
        split: if_splits)

lemmas add_defs = POST_twitter_add_account_def POST_twitter_add_account_try_def
  addAccountSchema_def string_min1_def string_where_def string_optional_def add_proxyConfig_def
  login_driver_def login_steps_def username_step_def mfa_and_save_def enter_mfa_code_def
  extract_username_def store_account_def new_account_def updated_account_def is_pending_def
  is_active_def close_context_variable_def mfa_required_response_def json_result_def
  json_error_def zod_error_def

lemmas add_fixture_defs = add_env0_def add_body0_def add_req0_def


section \<open>Resource safety of a task execution\<close>

text \<open>
  C1 at a failing input: a request whose session set-up has launched its Browser and
  opened its Context when \<^verbatim>\<open>context.newPage()\<close> rejects. The handler assigns its
  variable \<^verbatim>\<open>context\<close> only once the set-up has returned, so its \<^verbatim>\<open>finally\<close> block
  finds the variable unset: the Context that was opened for the task (Context 0, of
  Browser 0) is closed zero times, in the create-post route, which answers 200, and in
  the twitter like route, which answers 500. When the set-up returns, the same like
  request closes its Context once. No Browser is closed in any of the three runs.
\<close>

theorem context_left_open_when_newPage_fails:
  "fst (POST_create_post post_env_without_page post_req0 world0)
     = Normal \<lparr>http_status = 200, r_success = None,
         r_message = Some ''Post created successfully'', r_error = None,
         r_taskId = Some 1, r_requiresMfa = None\<rparr>
   \<and> map ctx_browser (contexts (snd (POST_create_post post_env_without_page post_req0 world0)))
     = [0]
   \<and> context_closes (snd (POST_create_post post_env_without_page post_req0 world0)) = []
   \<and> browser_closes (snd (POST_create_post post_env_without_page post_req0 world0)) = []
   \<and> fst (POST_twitter_like like_env_without_page like_req0 world0)
     = Normal (json_error 500
         ''browserContext.newPage: Target page, context or browser has been closed'')
   \<and> map ctx_browser (contexts (snd (POST_twitter_like like_env_without_page like_req0 world0)))
     = [0]
   \<and> context_closes (snd (POST_twitter_like like_env_without_page like_req0 world0)) = []
   \<and> browser_closes (snd (POST_twitter_like like_env_without_page like_req0 world0)) = []
   \<and> map ctx_browser (contexts (snd (POST_twitter_like like_env0 like_req0 world0))) = [0]
   \<and> context_closes (snd (POST_twitter_like like_env0 like_req0 world0)) = [0]
   \<and> browser_closes (snd (POST_twitter_like like_env0 like_req0 world0)) = []"
proof -
  have post: "POST_create_post post_env_without_page post_req0 world0
      = (Normal \<lparr>http_status = 200, r_success = None,
           r_message = Some ''Post created successfully'', r_error = None,
           r_taskId = Some 1, r_requiresMfa = None\<rparr>,
         snd (POST_create_post post_env_without_page post_req0 world0))
    \<and> map ctx_browser (contexts (snd (POST_create_post post_env_without_page post_req0 world0)))
      = [0]
    \<and> context_closes (snd (POST_create_post post_env_without_page post_req0 world0)) = []
    \<and> browser_closes (snd (POST_create_post post_env_without_page post_req0 world0)) = []"
    by (simp add: post_env_without_page_def setup_without_page_def fixture_defs post_defs
        session_defs store_defs io_defs)
  have like: "fst (POST_twitter_like like_env_without_page like_req0 world0)
      = Normal (json_error 500
         ''browserContext.newPage: Target page, context or browser has been closed'')
    \<and> map ctx_browser (contexts (snd (POST_twitter_like like_env_without_page like_req0 world0)))
      = [0]
    \<and> context_closes (snd (POST_twitter_like like_env_without_page like_req0 world0)) = []
    \<and> browser_closes (snd (POST_twitter_like like_env_without_page like_req0 world0)) = []"
    by (simp add: like_env_without_page_def setup_without_page_def fixture_defs like_defs
        session_defs store_defs io_defs)
  have usual: "map ctx_browser (contexts (snd (POST_twitter_like like_env0 like_req0 world0))) = [0]
    \<and> context_closes (snd (POST_twitter_like like_env0 like_req0 world0)) = [0]
    \<and> browser_closes (snd (POST_twitter_like like_env0 like_req0 world0)) = []"
    by (simp add: fixture_defs like_defs session_defs store_defs io_defs numeral_3_eq_3)
  from post have "fst (POST_create_post post_env_without_page post_req0 world0)
      = Normal \<lparr>http_status = 200, r_success = None,
           r_message = Some ''Post created successfully'', r_error = None,
           r_taskId = Some 1, r_requiresMfa = None\<rparr>"
    by (metis fst_conv)
  with post like usual show ?thesis by blast
qed


section \<open>One task row, one log entry\<close>

text \<open>
  C2 at a failing input: an immediate post whose post button is never found. The route
  answers 200, one task row exists, and two \<^verbatim>\<open>failed\<close> log entries are written for the
  one attempt: one by the \<^verbatim>\<open>catch\<close> block of \<^verbatim>\<open>executePost\<close> and one more by the
  \<^verbatim>\<open>catch\<close> block of the route around it.
\<close>

theorem create_post_failure_logs_twice:
  "fst (POST_create_post post_env_timeout post_req0 world0)
     = Normal \<lparr>http_status = 200, r_success = None,
         r_message = Some ''Post created successfully'', r_error = None,
         r_taskId = Some 1, r_requiresMfa = None\<rparr>
   \<and> map task_id (tasks (snd (POST_create_post post_env_timeout post_req0 world0))) = [1]
   \<and> task_logs (snd (POST_create_post post_env_timeout post_req0 world0))
     = [\<lparr>log_task_id = 1, log_result = LogFailed,
          log_message = ''page.waitForSelector: Timeout 10000ms exceeded.''\<rparr>,
        \<lparr>log_task_id = 1, log_result = LogFailed,
          log_message = ''page.waitForSelector: Timeout 10000ms exceeded.''\<rparr>]"
  by (simp add: fixture_defs post_defs session_defs store_defs io_defs)


section \<open>Terminal status of one-shot tasks\<close>

text \<open>
  C3 at a failing input: a follow request for a profile that is already followed. The
  route logs a success and returns, and the one-shot task it created is still
  \<^verbatim>\<open>active\<close>.
\<close>

theorem already_following_task_stays_active:
  "fst (POST_twitter_follow 5 follow_env0 follow_req0 world0)
     = Normal (json_result True ''User is already being followed'' (Some 1))
   \<and> map task_id (tasks (snd (POST_twitter_follow 5 follow_env0 follow_req0 world0))) = [1]
   \<and> map schedule_type (tasks (snd (POST_twitter_follow 5 follow_env0 follow_req0 world0)))
     = [''once'']
   \<and> map status (tasks (snd (POST_twitter_follow 5 follow_env0 follow_req0 world0)))
     = [Active]"
  by (simp add: fixture_defs follow_defs session_defs store_defs io_defs)


section \<open>Browser acquisition\<close>

text \<open>
  C4 as stated fails: two follow requests in a row get their Contexts from two
  different Browsers (0 and 1), both launched by the requests, and no global Browser is
  ever set.
\<close>

theorem fresh_browser_per_task_counterexample:
  "map ctx_browser (contexts after_two_follows) = [0, 1]
   \<and> browsers after_two_follows = [True, True]
   \<and> globalBrowser after_two_follows = None"
  by (simp add: fixture_defs follow_defs session_defs store_defs io_defs)

text \<open>
  C4, as the code has it: \<^verbatim>\<open>initGlobalBrowser\<close> returns the running global Browser
  without a launch, and launches and stores one when there is none;
  \<^verbatim>\<open>createStealthContext\<close> gives back a Context of the global Browser; and
  \<^verbatim>\<open>createStealthSetup\<close>, which is what every route calls, launches a new Browser on
  each call, gives back a Context of that new Browser and leaves the global Browser
  variable as it was.
\<close>

theorem browser_acquisition:
  "(globalBrowser w = Some b \<longrightarrow> initGlobalBrowser env w = (Normal b, w))
   \<and> (globalBrowser w = None \<and> launch_error env = None \<longrightarrow>
        initGlobalBrowser env w =
          (Normal (length (browsers w)),
           w\<lparr>browsers := browsers w @ [True], globalBrowser := Some (length (browsers w))\<rparr>))
   \<and> (createStealthContext env cookies proxy w = (Normal c, w') \<longrightarrow>
        globalBrowser w' = Some (ctx_browser (contexts w' ! c)))
   \<and> (createStealthSetup env cookies proxy headless w = (Normal (c, p), w') \<longrightarrow>
        ctx_browser (contexts w' ! c) = length (browsers w)
        \<and> browsers w' = browsers w @ [headless]
        \<and> globalBrowser w' = globalBrowser w)"
proof (intro conjI impI)
  assume "globalBrowser w = Some b"
  then show "initGlobalBrowser env w = (Normal b, w)"
    by (simp add: initGlobalBrowser_def)
next
  assume "globalBrowser w = None \<and> launch_error env = None"
  then show "initGlobalBrowser env w =
          (Normal (length (browsers w)),
           w\<lparr>browsers := browsers w @ [True], globalBrowser := Some (length (browsers w))\<rparr>)"
    by (simp add: initGlobalBrowser_def andThen_def chromium_launch_def modify_def ret_def)
next
  assume "createStealthContext env cookies proxy w = (Normal c, w')"
  then show "globalBrowser w' = Some (ctx_browser (contexts w' ! c))"
    by (rule createStealthContext_global)
next
  assume a: "createStealthSetup env cookies proxy headless w = (Normal (c, p), w')"
  then have r: "setup_returns env" by (rule createStealthSetup_normal)
  from a createStealthSetup_returns [OF r, of cookies proxy headless w]
  have e: "c = length (contexts w)"
    "w' = w\<lparr>browsers := browsers w @ [headless],
        contexts := contexts w @
          [\<lparr>ctx_browser = length (browsers w), ctx_proxy = proxy,
            ctx_cookies = restored_cookies env cookies\<rparr>]\<rparr>"
    by simp_all
  show "ctx_browser (contexts w' ! c) = length (browsers w)" using e by simp
  show "browsers w' = browsers w @ [headless]" using e by simp
  show "globalBrowser w' = globalBrowser w" using e by simp
qed

text \<open>The witness for C4: the global Browser is launched once (Browser 0) and found
  again; a Context from \<^verbatim>\<open>createStealthContext\<close> belongs to it, and a Context from
  \<^verbatim>\<open>createStealthSetup\<close> belongs to a second Browser (1) launched for it.\<close>

theorem browser_acquisition_witness:
  "globalBrowser world0 = None \<and> launch_error quiet_setup = None
   \<and> initGlobalBrowser quiet_setup world0
       = (Normal 0, world0\<lparr>browsers := [True], globalBrowser := Some 0\<rparr>)
   \<and> globalBrowser shared_browser_world = Some 0
   \<and> initGlobalBrowser quiet_setup shared_browser_world = (Normal 0, shared_browser_world)
   \<and> fst (createStealthContext quiet_setup None None shared_browser_world) = Normal 0
   \<and> globalBrowser (snd (createStealthContext quiet_setup None None shared_browser_world))
       = Some (ctx_browser
           (contexts (snd (createStealthContext quiet_setup None None shared_browser_world)) ! 0))
   \<and> fst (createStealthSetup quiet_setup None None True shared_browser_world)
       = Normal (0, Some 0)
   \<and> ctx_browser
         (contexts (snd (createStealthSetup quiet_setup None None True shared_browser_world)) ! 0)
       = 1
   \<and> globalBrowser (snd (createStealthSetup quiet_setup None None True shared_browser_world))
       = Some 0"
proof -
  have h: "globalBrowser world0 = None \<and> launch_error quiet_setup = None"
    by (simp add: world0_def quiet_setup_def)
  have i: "initGlobalBrowser quiet_setup world0 =
      (Normal 0, world0\<lparr>browsers := [True], globalBrowser := Some 0\<rparr>)"
    using browser_acquisition [of world0 0 quiet_setup None None 0 world0 True None] h
    by (simp add: world0_def)
  have s: "shared_browser_world = world0\<lparr>browsers := [True], globalBrowser := Some 0\<rparr>"
    by (simp add: shared_browser_world_def i)
  have g: "globalBrowser shared_browser_world = Some 0"
    by (simp add: s)
  have b: "length (browsers shared_browser_world) = 1"
    by (simp add: s)
  have j: "initGlobalBrowser quiet_setup shared_browser_world = (Normal 0, shared_browser_world)"
    using browser_acquisition
      [of shared_browser_world 0 quiet_setup None None 0 world0 True None] g
    by simp
  have c: "fst (createStealthContext quiet_setup None None shared_browser_world) = Normal 0"
    by (simp add: createStealthContext_def andThen_def initGlobalBrowser_def
        browser_newContext_def restore_cookies_def truthy_str_def quiet_setup_def ret_def s
        world0_def)
  have k: "createStealthContext quiet_setup None None shared_browser_world
      = (Normal 0, snd (createStealthContext quiet_setup None None shared_browser_world))"
    using c by (cases "createStealthContext quiet_setup None None shared_browser_world") simp
  have r: "setup_returns quiet_setup"
    by (simp add: setup_returns_def quiet_setup_def)
  have d: "fst (createStealthSetup quiet_setup None None True shared_browser_world)
      = Normal (0, Some 0)"
    by (simp add: createStealthSetup_returns [OF r] s world0_def)
  have l: "createStealthSetup quiet_setup None None True shared_browser_world
      = (Normal (0, Some 0),
         snd (createStealthSetup quiet_setup None None True shared_browser_world))"
    using d by (cases "createStealthSetup quiet_setup None None True shared_browser_world") simp
  show ?thesis
    using h i g j c d b
      browser_acquisition [of shared_browser_world 0 quiet_setup None None 0
        "snd (createStealthContext quiet_setup None None shared_browser_world)" True "Some 0"] k
      browser_acquisition [of shared_browser_world 0 quiet_setup None None 0
        "snd (createStealthSetup quiet_setup None None True shared_browser_world)" True "Some 0"] l
    by simp
qed

section \<open>An add-account request without an MFA secret\<close>





section \<open>Following an account that is already followed\<close>

text \<open>
  C7 as stated fails on the message: the answer to a follow request for a profile that is
  already followed carries the message ``User is already being followed'', which is not
  ``already following'' and does not contain it.
\<close>

theorem follow_message_counterexample:
  "fst (POST_twitter_follow 5 follow_env0 follow_req0 world0)
     = Normal \<lparr>http_status = 200, r_success = Some True,
         r_message = Some ''User is already being followed'', r_error = None,
         r_taskId = Some 1, r_requiresMfa = None\<rparr>
   \<and> ''User is already being followed'' \<noteq> ''already following''
   \<and> \<not> str_includes ''already following'' ''User is already being followed''"
  by (simp add: fixture_defs follow_defs session_defs store_defs io_defs)

text \<open>
  C7, as the code has it: for every accepted follow request of an owned account whose
  task row is stored and whose session opens, if the profile page loads and shows the
  unfollow button, the route answers success true with the message ``User is already
  being followed'' and the new task's id, writes one success log entry, and has issued
  no page call but the navigation, the pause and the state probe: no click, no
  confirmation, no verification.
\<close>

theorem follow_idempotent_when_following:
  assumes session: "fq_session req = Some uid"
    and body: "fq_json req = Resolves body"
    and valid: "followUserSchema (fe_uuid env) body = Some (username, accountId, Follow)"
    and owned: "single_row (\<lambda>a. acc_id a = accountId \<and> acc_user_id a = uid) w"
    and stored: "\<not> fe_task_refused env"
    and ready: "setup_returns (fe_setup env)"
    and opened: "fe_open_profile env = None"
    and following: "fe_state env = Resolves (True, notFollowing)"
  shows "fst (POST_twitter_follow fuel env req w)
      = Normal \<lparr>http_status = 200, r_success = Some True,
          r_message = Some ''User is already being followed'', r_error = None,
          r_taskId = Some (next_task_id (tasks w)), r_requiresMfa = None\<rparr>
    \<and> page_calls (snd (POST_twitter_follow fuel env req w))
      = page_calls w @ [Goto (''https://x.com/'' @ username), WaitForTimeout,
                        Evaluate ''isFollowing'']
    \<and> task_logs (snd (POST_twitter_follow fuel env req w))
      = task_logs w @ [\<lparr>log_task_id = next_task_id (tasks w), log_result = LogSuccess,
                        log_message = ''User is already being followed''\<rparr>]"
proof -
  define w0 where "w0 = w\<lparr>local_context := None, local_page := None\<rparr>"
  have "single_row (\<lambda>a. acc_id a = accountId \<and> acc_user_id a = uid) w0"
    using owned by (simp add: w0_def)
  from select_single_found [OF this] obtain a where
    a: "select_single (\<lambda>a. acc_id a = accountId \<and> acc_user_id a = uid) w0
          = (Normal (Some a), w0)"
    by blast
  show ?thesis
    using a
    by (simp add: POST_twitter_follow_def POST_twitter_follow_try_def declare_locals_def
        andThen_def modify_def try_catch_def try_finally_def w0_def [symmetric]
        session body valid stored opened following insert_task_def Let_def
        createStealthSetup_returns [OF ready] assign_locals_def follow_protocol_def
        page_do_def page_get_def insert_log_def json_result_def ret_def
        close_local_context_def context_close_def)
       (simp add: w0_def)
qed

text \<open>The witness for C7: the follow request of the example world.\<close>

theorem follow_idempotent_when_following_witness:
  "fq_session follow_req0 = Some ''user-1''
   \<and> followUserSchema (fe_uuid follow_env0)
         \<lparr>fb_username = Str ''rihanna'',
          fb_accountId = Str ''123e4567-e89b-12d3-a456-426614174000'', fb_action = Absent\<rparr>
       = Some (''rihanna'', ''123e4567-e89b-12d3-a456-426614174000'', Follow)
   \<and> single_row (\<lambda>a. acc_id a = ''123e4567-e89b-12d3-a456-426614174000''
                       \<and> acc_user_id a = ''user-1'') world0
   \<and> setup_returns (fe_setup follow_env0)
   \<and> fe_state follow_env0 = Resolves (True, False)
   \<and> fst (POST_twitter_follow 5 follow_env0 follow_req0 world0)
       = Normal \<lparr>http_status = 200, r_success = Some True,
           r_message = Some ''User is already being followed'', r_error = None,
           r_taskId = Some 1, r_requiresMfa = None\<rparr>
   \<and> page_calls (snd (POST_twitter_follow 5 follow_env0 follow_req0 world0))
       = [Goto ''https://x.com/rihanna'', WaitForTimeout, Evaluate ''isFollowing'']
   \<and> task_logs (snd (POST_twitter_follow 5 follow_env0 follow_req0 world0))
       = [\<lparr>log_task_id = 1, log_result = LogSuccess,
            log_message = ''User is already being followed''\<rparr>]"
proof -
  have h1: "fq_session follow_req0 = Some ''user-1''"
    by (simp add: follow_req0_def)
  have h2: "fq_json follow_req0 = Resolves \<lparr>fb_username = Str ''rihanna'',
          fb_accountId = Str ''123e4567-e89b-12d3-a456-426614174000'', fb_action = Absent\<rparr>"
    by (simp add: follow_req0_def)
  have h3: "followUserSchema (fe_uuid follow_env0)
         \<lparr>fb_username = Str ''rihanna'',
          fb_accountId = Str ''123e4567-e89b-12d3-a456-426614174000'', fb_action = Absent\<rparr>
       = Some (''rihanna'', ''123e4567-e89b-12d3-a456-426614174000'', Follow)"
    by (simp add: follow_env0_def followUserSchema_def string_min1_def string_where_def
        action_enum_def)
  have h4: "single_row (\<lambda>a. acc_id a = ''123e4567-e89b-12d3-a456-426614174000''
                       \<and> acc_user_id a = ''user-1'') world0"
    by (simp add: single_row_def world0_def alice_def fiona_def)
  have h5: "\<not> fe_task_refused follow_env0"
    by (simp add: follow_env0_def)
  have h6: "setup_returns (fe_setup follow_env0)"
    by (simp add: follow_env0_def quiet_setup_def setup_returns_def)
  have h7: "fe_open_profile follow_env0 = None"
    by (simp add: follow_env0_def)
  have h8: "fe_state follow_env0 = Resolves (True, False)"
    by (simp add: follow_env0_def)
  have t: "tasks world0 = [] \<and> page_calls world0 = [] \<and> task_logs world0 = []"
    by (simp add: world0_def)
  show ?thesis
    using follow_idempotent_when_following [OF h1 h2 h3 h4 h5 h6 h7 h8, of 5] h1 h3 h4 h6 h8 t
    by (simp add: next_task_id_def)
qed


section \<open>A like that cannot be completed\<close>

text \<open>
  C8 as stated fails on the message: when all three passes of the only retry loop of the
  like route fail, the log entry and the answer carry ``Failed to verify like action
  after multiple attempts'', which does not contain ``like button''.
\<close>

theorem like_message_counterexample:
  "fst (POST_twitter_like like_env0 like_req0 world0)
     = Normal (json_error 500 ''Failed to verify like action after multiple attempts'')
   \<and> task_logs (snd (POST_twitter_like like_env0 like_req0 world0))
     = [\<lparr>log_task_id = 1, log_result = LogFailed,
          log_message = ''Failed to verify like action after multiple attempts''\<rparr>]
   \<and> \<not> str_includes ''like button'' ''Failed to verify like action after multiple attempts''"
  by (simp add: fixture_defs like_defs session_defs store_defs io_defs numeral_3_eq_3)

text \<open>
  C8, as the code has it: for an accepted like request of an owned account whose task row
  is stored, whose session opens and whose tweet page loads without the tweet being
  liked already: if the one wait for the like button (which has no retry) rejects, or if
  the button is clicked and none of the three verification passes sees the like, the
  answer has status 500 with the message of the error, the task ends \<^verbatim>\<open>failed\<close>, and
  exactly one log entry, \<^verbatim>\<open>failed\<close> with that message, is appended. The message is
  the rejection's own in the first case and ``Failed to verify like action after
  multiple attempts'' in the second.
\<close>

theorem like_fails_once:
  assumes session: "lq_session req = Some uid"
    and body: "lq_json req = Resolves body"
    and valid: "likeTweetSchema (le_url env) (le_uuid env) body = Some (tweetUrl, accountId)"
    and owned: "single_row (\<lambda>a. acc_id a = accountId \<and> acc_user_id a = uid) w"
    and stored: "\<not> le_task_refused env"
    and ready: "setup_returns (le_setup env)"
    and opened: "le_open_tweet env = None"
    and fresh: "le_isAlreadyLiked env \<noteq> Resolves True"
  shows "(le_likeButton env = Some m \<longrightarrow>
            failed_outcome (POST_twitter_like env req w) w
              ((like_taskData uid accountId tweetUrl)\<lparr>task_id := next_task_id (tasks w)\<rparr>) m)
       \<and> (le_likeButton env = None \<and> le_click env = None \<and> never_verified env \<longrightarrow>
            failed_outcome (POST_twitter_like env req w) w
              ((like_taskData uid accountId tweetUrl)\<lparr>task_id := next_task_id (tasks w)\<rparr>)
              ''Failed to verify like action after multiple attempts'')"
proof -
  define w0 where "w0 = w\<lparr>local_context := None, local_page := None\<rparr>"
  have "single_row (\<lambda>a. acc_id a = accountId \<and> acc_user_id a = uid) w0"
    using owned by (simp add: w0_def)
  from select_single_found [OF this] obtain a where
    a: "select_single (\<lambda>a. acc_id a = accountId \<and> acc_user_id a = uid) w0
          = (Normal (Some a), w0)"
    by blast
  have liked: "catch_default False (le_isAlreadyLiked env) = Resolves False"
    using fresh by (cases "le_isAlreadyLiked env") auto
  have first: "le_likeButton env = Some m \<Longrightarrow>
            failed_outcome (POST_twitter_like env req w) w
              ((like_taskData uid accountId tweetUrl)\<lparr>task_id := next_task_id (tasks w)\<rparr>) m"
    using a
    by (simp add: failed_outcome_def POST_twitter_like_def POST_twitter_like_try_def
        declare_locals_def andThen_def modify_def try_catch_def try_finally_def
        w0_def [symmetric] session body valid stored opened liked insert_task_def Let_def
        createStealthSetup_returns [OF ready] assign_locals_def like_protocol_def
        page_do_def page_get_def insert_log_def update_task_status_def fail_task_def
        json_error_def ret_def throw_def await_def await_unit_def
        close_local_context_def context_close_def like_taskData_def)
       (simp add: w0_def set_status_fresh)
  have second: "le_likeButton env = None \<and> le_click env = None \<and> never_verified env \<Longrightarrow>
            failed_outcome (POST_twitter_like env req w) w
              ((like_taskData uid accountId tweetUrl)\<lparr>task_id := next_task_id (tasks w)\<rparr>)
              ''Failed to verify like action after multiple attempts''"
    using a
    by (cases "le_initialLikeCount env")
       (simp_all add: failed_outcome_def POST_twitter_like_def POST_twitter_like_try_def
        declare_locals_def andThen_def modify_def try_catch_def try_finally_def
        session body valid stored opened liked insert_task_def Let_def
        createStealthSetup_returns [OF ready] assign_locals_def like_protocol_def
        page_do_def page_get_def insert_log_def update_task_status_def fail_task_def
        json_error_def ret_def throw_def await_def await_unit_def
        close_local_context_def context_close_def like_taskData_def
        never_verified_def like_verifications_def numeral_3_eq_3 w0_def set_status_fresh)
  show ?thesis using first second by blast
qed

text \<open>The witness for C8: three failed verification passes, and a like button that
  never appears.\<close>

theorem like_fails_once_witness:
  "setup_returns (le_setup like_env0) \<and> le_isAlreadyLiked like_env0 \<noteq> Resolves True
   \<and> le_likeButton like_env0 = None \<and> le_click like_env0 = None \<and> never_verified like_env0
   \<and> fst (POST_twitter_like like_env0 like_req0 world0)
       = Normal (json_error 500 ''Failed to verify like action after multiple attempts'')
   \<and> map status (tasks (snd (POST_twitter_like like_env0 like_req0 world0))) = [Failed]
   \<and> task_logs (snd (POST_twitter_like like_env0 like_req0 world0))
       = [\<lparr>log_task_id = 1, log_result = LogFailed,
            log_message = ''Failed to verify like action after multiple attempts''\<rparr>]
   \<and> le_likeButton (like_env0\<lparr>le_likeButton := Some ''Timeout 30000ms exceeded''\<rparr>)
       = Some ''Timeout 30000ms exceeded''
   \<and> fst (POST_twitter_like (like_env0\<lparr>le_likeButton := Some ''Timeout 30000ms exceeded''\<rparr>)
          like_req0 world0)
       = Normal (json_error 500 ''Timeout 30000ms exceeded'')
   \<and> task_logs (snd (POST_twitter_like
          (like_env0\<lparr>le_likeButton := Some ''Timeout 30000ms exceeded''\<rparr>) like_req0 world0))
       = [\<lparr>log_task_id = 1, log_result = LogFailed,
            log_message = ''Timeout 30000ms exceeded''\<rparr>]"
proof -
  let ?env = "like_env0\<lparr>le_likeButton := Some ''Timeout 30000ms exceeded''\<rparr>"
  let ?body = "\<lparr>lb_tweetUrl = Str ''https://x.com/u/status/123'',
        lb_accountId = Str ''123e4567-e89b-12d3-a456-426614174000''\<rparr>"
  have h1: "lq_session like_req0 = Some ''user-1''"
    by (simp add: like_req0_def)
  have h2: "lq_json like_req0 = Resolves ?body"
    by (simp add: like_req0_def)
  have h3: "likeTweetSchema (le_url like_env0) (le_uuid like_env0) ?body
       = Some (''https://x.com/u/status/123'', ''123e4567-e89b-12d3-a456-426614174000'')"
    by (simp add: like_env0_def likeTweetSchema_def string_where_def)
  have h3': "likeTweetSchema (le_url ?env) (le_uuid ?env) ?body
       = Some (''https://x.com/u/status/123'', ''123e4567-e89b-12d3-a456-426614174000'')"
    using h3 by simp
  have h4: "single_row (\<lambda>a. acc_id a = ''123e4567-e89b-12d3-a456-426614174000''
                       \<and> acc_user_id a = ''user-1'') world0"
    by (simp add: single_row_def world0_def alice_def fiona_def)
  have h5: "\<not> le_task_refused like_env0" "\<not> le_task_refused ?env"
    by (simp_all add: like_env0_def)
  have h6: "setup_returns (le_setup like_env0)" "setup_returns (le_setup ?env)"
    by (simp_all add: like_env0_def quiet_setup_def setup_returns_def)
  have h7: "le_open_tweet like_env0 = None" "le_open_tweet ?env = None"
    by (simp_all add: like_env0_def)
  have h8: "le_isAlreadyLiked like_env0 \<noteq> Resolves True"
    "le_isAlreadyLiked ?env \<noteq> Resolves True"
    by (simp_all add: like_env0_def)
  have h9: "le_likeButton like_env0 = None \<and> le_click like_env0 = None
      \<and> never_verified like_env0"
    by (simp add: like_env0_def never_verified_def catch_default_def then_map_def)
  have h10: "le_likeButton ?env = Some ''Timeout 30000ms exceeded''"
    by simp
  have t: "tasks world0 = [] \<and> task_logs world0 = []"
    by (simp add: world0_def)
  show ?thesis
    using like_fails_once [OF h1 h2 h3 h4 h5(1) h6(1) h7(1) h8(1), of "''none''"] h9
      like_fails_once [OF h1 h2 h3' h4 h5(2) h6(2) h7(2) h8(2), of "''Timeout 30000ms exceeded''"] h10
      h6(1) h8(1) t
    by (simp add: failed_outcome_def next_task_id_def like_taskData_def)
qed


section \<open>The MFA secret is required by the schema\<close>

text \<open>
  C10: a body that \<^verbatim>\<open>addAccountSchema\<close> accepts carries a non-empty string as its
  \<^verbatim>\<open>mfa_code\<close>; a request whose \<^verbatim>\<open>mfa_code\<close> is absent, not a string or empty is
  answered with the validation error before any browser is launched or any row is
  touched; and no answer of the add-account route has requiresMfa true, whatever the
  environment does.
\<close>

theorem mfa_branch_unreachable:
  "(addAccountSchema (ae_email env) (ae_parseInt env) body = Some f \<longrightarrow>
      (\<exists>code. ab_mfa_code body = Str code \<and> code \<noteq> [] \<and> af_mfa_code f = Some code))
   \<and> (aq_session req \<noteq> None \<and> aq_json req = Resolves body
        \<and> (ab_mfa_code body = Absent \<or> ab_mfa_code body = NonString \<or> ab_mfa_code body = Str [])
      \<longrightarrow> POST_twitter_add_account env req w
            = (Normal (json_error 500 zod_error), w\<lparr>local_context := None, local_page := None\<rparr>))
   \<and> (fst (POST_twitter_add_account env req w) = Normal r \<longrightarrow> r_requiresMfa r \<noteq> Some True)"
proof (intro conjI impI)
  assume "addAccountSchema (ae_email env) (ae_parseInt env) body = Some f"
  then show "\<exists>code. ab_mfa_code body = Str code \<and> code \<noteq> [] \<and> af_mfa_code f = Some code"
    by (rule addAccountSchema_mfa)
next
  assume h: "aq_session req \<noteq> None \<and> aq_json req = Resolves body
        \<and> (ab_mfa_code body = Absent \<or> ab_mfa_code body = NonString \<or> ab_mfa_code body = Str [])"
  have "addAccountSchema (ae_email env) (ae_parseInt env) body = None"
  proof (cases "addAccountSchema (ae_email env) (ae_parseInt env) body")
    case None
    then show ?thesis .
  next
    case (Some g)
    from addAccountSchema_mfa [OF Some] h show ?thesis by auto
  qed
  then show "POST_twitter_add_account env req w
            = (Normal (json_error 500 zod_error), w\<lparr>local_context := None, local_page := None\<rparr>)"
    using h
    by (auto simp add: POST_twitter_add_account_def POST_twitter_add_account_try_def
        declare_locals_def andThen_def modify_def try_catch_def try_finally_def await_def
        throw_def ret_def close_local_context_def)
next
  assume n: "fst (POST_twitter_add_account env req w) = Normal r"
  have t: "never_asks_mfa (POST_twitter_add_account_try env req)"
    unfolding POST_twitter_add_account_try_def
    by (intro never_asks_mfa_if never_asks_mfa_andThen never_asks_mfa_ret)
       (auto simp add: json_error_def json_result_def never_asks_mfa_throw never_asks_mfa_ret
          never_asks_mfa_andThen never_asks_mfa_driver truthy_str_def
          dest!: addAccountSchema_mfa split: option.splits)
  have "never_asks_mfa (POST_twitter_add_account env req)"
    unfolding POST_twitter_add_account_def
    by (intro never_asks_mfa_andThen never_asks_mfa_try_finally never_asks_mfa_try_catch t
        never_asks_mfa_ret) (simp add: json_error_def)
  then have "case fst (POST_twitter_add_account env req w) of
      Normal r \<Rightarrow> r_requiresMfa r \<noteq> Some True | _ \<Rightarrow> True"
    unfolding never_asks_mfa_def by (rule spec)
  then show "r_requiresMfa r \<noteq> Some True"
    using n by simp
qed

text \<open>The witness for C10: an accepted body, a body with an empty secret, and an accepted
  request on a page that asks for a code.\<close>

theorem mfa_branch_unreachable_witness:
  "addAccountSchema (ae_email add_env0) (ae_parseInt add_env0) add_body0
       = Some \<lparr>af_username = ''bob'', af_email = ''bob@example.com'',
           af_password = ''hunter2'', af_proxy_ip = None, af_proxy_port = PortUndefined,
           af_proxy_username = None, af_proxy_password = None, af_mail_password = None,
           af_mfa_code = Some ''JBSWY3DPEHPK3PXP''\<rparr>
   \<and> ab_mfa_code add_body0 = Str ''JBSWY3DPEHPK3PXP''
   \<and> POST_twitter_add_account add_env0
        \<lparr>aq_session = Some ''user-1'', aq_json = Resolves (add_body0\<lparr>ab_mfa_code := Str []\<rparr>)\<rparr>
        world0
       = (Normal (json_error 500 zod_error), world0)
   \<and> ae_mfaInput add_env0 = Resolves 1
   \<and> fst (POST_twitter_add_account add_env0 add_req0 world0)
       = Normal (json_result True ''Account added successfully'' None)"
proof -
  let ?f = "\<lparr>af_username = ''bob'', af_email = ''bob@example.com'',
     af_password = ''hunter2'', af_proxy_ip = None, af_proxy_port = PortUndefined,
     af_proxy_username = None, af_proxy_password = None, af_mail_password = None,
     af_mfa_code = Some ''JBSWY3DPEHPK3PXP''\<rparr>"
  let ?bad = "\<lparr>aq_session = Some ''user-1'',
     aq_json = Resolves (add_body0\<lparr>ab_mfa_code := Str []\<rparr>)\<rparr>"
  have a: "addAccountSchema (ae_email add_env0) (ae_parseInt add_env0) add_body0 = Some ?f"
    by (simp add: addAccountSchema_def add_env0_def add_body0_def string_min1_def
        string_where_def string_optional_def truthy_str_def)
  have b: "aq_session ?bad \<noteq> None \<and> aq_json ?bad = Resolves (add_body0\<lparr>ab_mfa_code := Str []\<rparr>)
      \<and> (ab_mfa_code (add_body0\<lparr>ab_mfa_code := Str []\<rparr>) = Absent
         \<or> ab_mfa_code (add_body0\<lparr>ab_mfa_code := Str []\<rparr>) = NonString
         \<or> ab_mfa_code (add_body0\<lparr>ab_mfa_code := Str []\<rparr>) = Str [])"
    by simp
  have c: "fst (POST_twitter_add_account add_env0 add_req0 world0)
       = Normal (json_result True ''Account added successfully'' None)"
    by (simp add: add_defs add_fixture_defs fixture_defs session_defs store_defs io_defs
        numeral_3_eq_3)
  have l: "world0\<lparr>local_context := None, local_page := None\<rparr> = world0"
    by (simp add: world0_def)
  show ?thesis
    using mfa_branch_unreachable [where env = add_env0 and body = add_body0 and f = ?f
        and req = add_req0 and w = world0
        and r = "json_result True ''Account added successfully'' None"] a c
      mfa_branch_unreachable [where env = add_env0
        and body = "add_body0\<lparr>ab_mfa_code := Str []\<rparr>" and f = ?f
        and req = ?bad and w = world0
        and r = "json_result True ''Account added successfully'' None"] b l
    by (simp add: add_env0_def)
qed


section \<open>The proxy resolver\<close>

text \<open>
  C6 as stated fails on the keys: for the account with proxy 10.0.0.5:8080 and the
  credentials u and p the routes build an object whose keys are \<^verbatim>\<open>type\<close>,
  \<^verbatim>\<open>server\<close>, \<^verbatim>\<open>port\<close>, \<^verbatim>\<open>username\<close> and \<^verbatim>\<open>password\<close>; it has no key
  \<^verbatim>\<open>protocol\<close> and no key \<^verbatim>\<open>host\<close>, and is not the object of the claim.
\<close>

theorem proxy_descriptor_keys_counterexample:
  "proxyConfig proxied
     = Some [(''type'', JsString ''http''), (''server'', JsString ''10.0.0.5''),
             (''port'', JsNumber 8080), (''username'', JsString ''u''),
             (''password'', JsString ''p'')]
   \<and> map_of (the (proxyConfig proxied)) ''protocol'' = None
   \<and> map_of (the (proxyConfig proxied)) ''host'' = None
   \<and> proxyConfig proxied
     \<noteq> Some [(''protocol'', JsString ''http''), (''host'', JsString ''10.0.0.5''),
             (''port'', JsNumber 8080), (''username'', JsString ''u''),
             (''password'', JsString ''p'')]"
  by (simp add: proxied_def alice_def proxyConfig_def truthy_str_def truthy_num_def or_empty_def)

text \<open>
  C6, as the code has it, for every account: when the proxy address is a non-empty string
  and the proxy port a number other than 0, the descriptor is the object with
  \<^verbatim>\<open>type\<close> http, \<^verbatim>\<open>server\<close> the address, \<^verbatim>\<open>port\<close> the port, and
  \<^verbatim>\<open>username\<close> and \<^verbatim>\<open>password\<close> the stored credentials, the empty string when
  one is null; when the address is null or empty or the port is null or 0, the result is
  \<^verbatim>\<open>undefined\<close>; there is no other case, so nothing is thrown; and two accounts with
  the same four proxy columns get the same result.
\<close>

theorem proxy_resolver_mapping:
  "(proxy_ip a = Some ip \<and> ip \<noteq> [] \<and> proxy_port a = Some port \<and> port \<noteq> 0 \<longrightarrow>
      proxyConfig a
        = Some [(''type'', JsString ''http''), (''server'', JsString ip),
                (''port'', JsNumber port),
                (''username'', JsString (case proxy_username a of None \<Rightarrow> [] | Some u \<Rightarrow> u)),
                (''password'', JsString (case proxy_password a of None \<Rightarrow> [] | Some p \<Rightarrow> p))])
   \<and> (proxy_ip a = None \<or> proxy_ip a = Some [] \<or> proxy_port a = None \<or> proxy_port a = Some 0
        \<longrightarrow> proxyConfig a = None)
   \<and> (proxy_ip a = proxy_ip b \<and> proxy_port a = proxy_port b
        \<and> proxy_username a = proxy_username b \<and> proxy_password a = proxy_password b
        \<longrightarrow> proxyConfig a = proxyConfig b)"
  by (auto simp add: proxyConfig_def truthy_str_def truthy_num_def or_empty_def)

text \<open>The witness for C6: the account with proxy 10.0.0.5:8080 and the credentials u and
  p, the same account with a null address and with a null port, and another account with
  the same proxy columns.\<close>

theorem proxy_resolver_mapping_witness:
  "proxy_ip proxied = Some ''10.0.0.5'' \<and> proxy_port proxied = Some 8080
   \<and> proxyConfig proxied
       = Some [(''type'', JsString ''http''), (''server'', JsString ''10.0.0.5''),
               (''port'', JsNumber 8080), (''username'', JsString ''u''),
               (''password'', JsString ''p'')]
   \<and> proxy_ip (proxied\<lparr>proxy_ip := None\<rparr>) = None
   \<and> proxyConfig (proxied\<lparr>proxy_ip := None\<rparr>) = None
   \<and> proxy_port (proxied\<lparr>proxy_port := None\<rparr>) = None
   \<and> proxyConfig (proxied\<lparr>proxy_port := None\<rparr>) = None
   \<and> acc_id proxied \<noteq> acc_id proxied_other
   \<and> proxyConfig proxied = proxyConfig proxied_other"
proof -
  have p: "proxy_ip proxied = Some ''10.0.0.5'' \<and> proxy_port proxied = Some 8080
      \<and> proxy_username proxied = Some ''u'' \<and> proxy_password proxied = Some ''p''"
    by (simp add: proxied_def)
  have q: "proxy_ip proxied_other = Some ''10.0.0.5'' \<and> proxy_port proxied_other = Some 8080
      \<and> proxy_username proxied_other = Some ''u'' \<and> proxy_password proxied_other = Some ''p''"
    by (simp add: proxied_other_def)
  have d: "acc_id proxied \<noteq> acc_id proxied_other"
    by (simp add: proxied_def proxied_other_def alice_def fiona_def)
  have m: "proxyConfig proxied
       = Some [(''type'', JsString ''http''), (''server'', JsString ''10.0.0.5''),
               (''port'', JsNumber 8080), (''username'', JsString ''u''),
               (''password'', JsString ''p'')]"
    using proxy_resolver_mapping [of proxied "''10.0.0.5''" 8080 proxied_other] p by simp
  have "proxy_ip proxied = proxy_ip proxied_other \<and> proxy_port proxied = proxy_port proxied_other
      \<and> proxy_username proxied = proxy_username proxied_other
      \<and> proxy_password proxied = proxy_password proxied_other"
    using p q by simp
  then have e: "proxyConfig proxied = proxyConfig proxied_other"
    using proxy_resolver_mapping [of proxied "''10.0.0.5''" 8080 proxied_other] by blast
  have i: "proxy_ip (proxied\<lparr>proxy_ip := None\<rparr>) = None
      \<and> proxyConfig (proxied\<lparr>proxy_ip := None\<rparr>) = None"
    using proxy_resolver_mapping [of "proxied\<lparr>proxy_ip := None\<rparr>" "''10.0.0.5''" 8080
        proxied_other]
    by simp
  have n: "proxy_port (proxied\<lparr>proxy_port := None\<rparr>) = None
      \<and> proxyConfig (proxied\<lparr>proxy_port := None\<rparr>) = None"
    using proxy_resolver_mapping [of "proxied\<lparr>proxy_port := None\<rparr>" "''10.0.0.5''" 8080
        proxied_other]
    by simp
  from p m e i n d show ?thesis by blast
qed


section \<open>The cookie parser\<close>

text \<open>
  C9: when the stored session blob is not valid JSON, \<^verbatim>\<open>parseCookies\<close> splits it on
  semicolons and gives every piece the domain .facebook.com, the path /, secure,
  httpOnly and sameSite Lax; the platform of the account is not an input. A Context set
  up from such a blob (non-empty, cookie replay not failing) holds exactly these cookies.
\<close>

theorem parseCookies_fallback_facebook_domain:
  assumes "json_parse env s = None"
  shows "parseCookies (json_parse env) s = JCookies (map cookie_of_piece (js_split CHR '';'' s))
    \<and> (\<forall>c \<in> set (map cookie_of_piece (js_split CHR '';'' s)).
          ck_domain c = ''.facebook.com'' \<and> ck_path c = ''/'' \<and> ck_secure c
          \<and> ck_httpOnly c \<and> ck_sameSite c = ''Lax'')
    \<and> (s \<noteq> [] \<and> setup_returns env \<and> addCookies_error env = None \<longrightarrow>
          ctx_cookies (last (contexts (snd (createStealthSetup env (Some s) proxy headless w))))
            = map cookie_of_piece (js_split CHR '';'' s))"
  using assms
  by (simp add: parseCookies_def cookie_of_piece_fixed createStealthSetup_returns
      restored_cookies_def truthy_str_def)

text \<open>The witness for C9: the cookie string of a twitter account.\<close>

theorem parseCookies_fallback_facebook_domain_witness:
  "json_parse quiet_setup ''auth_token=abc; ct0=def'' = None
   \<and> parseCookies (json_parse quiet_setup) ''auth_token=abc; ct0=def''
       = JCookies [\<lparr>ck_name = ''auth_token'', ck_value = Some ''abc'',
                     ck_domain = ''.facebook.com'', ck_path = ''/'', ck_secure = True,
                     ck_httpOnly = True, ck_sameSite = ''Lax''\<rparr>,
                   \<lparr>ck_name = ''ct0'', ck_value = Some ''def'',
                     ck_domain = ''.facebook.com'', ck_path = ''/'', ck_secure = True,
                     ck_httpOnly = True, ck_sameSite = ''Lax''\<rparr>]
   \<and> map ck_domain (ctx_cookies (last (contexts (snd
         (createStealthSetup quiet_setup (acc_cookies alice) (proxyConfig alice) True world0)))))
       = [''.facebook.com'', ''.facebook.com'']"
proof -
  have h: "json_parse quiet_setup ''auth_token=abc; ct0=def'' = None"
    by (simp add: quiet_setup_def)
  have r: "setup_returns quiet_setup \<and> addCookies_error quiet_setup = None"
    by (simp add: quiet_setup_def setup_returns_def)
  have p: "map cookie_of_piece (js_split CHR '';'' ''auth_token=abc; ct0=def'')
       = [\<lparr>ck_name = ''auth_token'', ck_value = Some ''abc'',
                     ck_domain = ''.facebook.com'', ck_path = ''/'', ck_secure = True,
                     ck_httpOnly = True, ck_sameSite = ''Lax''\<rparr>,
                   \<lparr>ck_name = ''ct0'', ck_value = Some ''def'',
                     ck_domain = ''.facebook.com'', ck_path = ''/'', ck_secure = True,
                     ck_httpOnly = True, ck_sameSite = ''Lax''\<rparr>]"
    by (simp add: cookie_of_piece_def js_trim_def is_js_space_def Let_def)
  show ?thesis
    using parseCookies_fallback_facebook_domain [OF h, of "proxyConfig alice" True world0] r h p
    by (simp add: alice_def)
qed


end
